theory Spec2Isabelle
  imports Complex_Main "HOL-Library.Sublist"
begin

section \<open>Python values and errors\<close>

text \<open>
  The rule engine of \<^verbatim>\<open>py/nodes/ops.py\<close> is an interpreter over values that come out
  of a YAML document and over a state dictionary. Exceptions are values of type
  \<open>error\<close>; a function that may raise returns \<open>error + 'a\<close> with \<open>Inl\<close> for the
  exception. Python floats are modelled as reals (rounding of the floating-point
  arithmetic is not represented).
\<close>

datatype error =
    ValueError string
  | TypeError
  | KeyError
  | AttributeError
  | IndexError
  | NameError string
  | ZeroDivisionError

text \<open>Hashable scalars (what a YAML scalar loads to) and nested YAML data.\<close>

datatype scalar = SNone | SBool bool | SInt int | SFloat real | SStr string

datatype pyval = Sc scalar | PList "pyval list" | PDict "(scalar \<times> pyval) list"

section \<open>Enumerations\<close>

text \<open>\<^verbatim>\<open>CondType.TYPE\<close> is written \<open>TYPE'\<close>, because \<open>TYPE\<close> is reserved syntax.\<close>

datatype CondType =
    TYPE' | BLOCK | STAGE | FROM_PERCENT | TO_PERCENT | PERCENT | STEP | STEP_EXACT
  | FROM_STEP | TO_STEP | STEP_INTERVAL | COND

datatype CompareType = EQ | NE | GT | LT | GE | LE | NOT | OR | AND

datatype OpType =
    SLICE | FFILTER | SCALE_TORCH | UNSCALE_TORCH | SCALE | UNSCALE | FLIP | ROT90
  | ROLL_CHANNELS | ROLL | TARGET_SKIP | MULTIPLY | BLEND_OP | MASK_EXAMPLE_OP
  | ANTIALIAS | NOISE | DEBUG

section \<open>The state dictionary\<close>

text \<open>
  The state is one Python dict whose keys are \<^verbatim>\<open>CondType\<close> members and strings. An
  enum member never equals a string, so the dict is the disjoint union of two maps:
  \<open>cond\<close> for the enum keys, which hold scalars, and \<open>slots\<close> for the string keys
  (\<^verbatim>\<open>"h"\<close>, \<^verbatim>\<open>"hsp"\<close>, \<^verbatim>\<open>"target"\<close>, \<^verbatim>\<open>"sigma"\<close>, \<^verbatim>\<open>"sigma_next"\<close> and the scratch
  names), which hold a scalar or a tensor.

  Tensors are values of a type parameter \<open>'t\<close>. An in-place update of a tensor
  (\<^verbatim>\<open>out *= x\<close>, \<^verbatim>\<open>t += x\<close>, \<^verbatim>\<open>out[:, :n] = x\<close>) is followed in the source by
  \<^verbatim>\<open>state[state["target"]] = out\<close> on the same object, so it is modelled as the rebinding
  of the target slot to the updated value. This is exact as long as different slots hold
  different tensor objects, which is how the host calls the patches and which every
  operation preserves (\<^verbatim>\<open>clone\<close> for the scratch slot, new tensors otherwise).

  Two pieces of global program state are carried in the same record: \<open>IDX\<close>, the class
  attribute \<^verbatim>\<open>Operation.IDX\<close>, and \<open>rng\<close>, the state of the random generator that
  \<^verbatim>\<open>torch.randn_like\<close> draws from.
\<close>

datatype 't slotval = Val scalar | Tensor 't

record 't state =
  cond :: "CondType \<rightharpoonup> scalar"
  slots :: "string \<rightharpoonup> 't slotval"
  IDX :: nat
  rng :: nat

section \<open>Python comparison operators\<close>

fun num_of :: "scalar \<Rightarrow> real option" where
  "num_of (SBool b) = Some (if b then 1 else 0)"
| "num_of (SInt i) = Some (of_int i)"
| "num_of (SFloat r) = Some r"
| "num_of SNone = None"
| "num_of (SStr s) = None"

text \<open>Strings are ordered lexicographically by code point.\<close>

fun str_lt :: "string \<Rightarrow> string \<Rightarrow> bool" where
  "str_lt [] [] = False"
| "str_lt [] (y # ys) = True"
| "str_lt (x # xs) [] = False"
| "str_lt (x # xs) (y # ys) =
     ((of_char x :: nat) < of_char y \<or> (x = y \<and> str_lt xs ys))"

text \<open>
  \<^verbatim>\<open>==\<close> never raises: numbers (bool, int, float) compare by value, strings and
  \<^verbatim>\<open>None\<close> with themselves, and a scalar never equals a list or a dict.
\<close>

fun py_eq :: "scalar \<Rightarrow> pyval \<Rightarrow> bool" where
  "py_eq a (Sc b) =
     (case (num_of a, num_of b) of
        (Some x, Some y) \<Rightarrow> x = y
      | (None, None) \<Rightarrow> a = b
      | _ \<Rightarrow> False)"
| "py_eq a (PList xs) = False"
| "py_eq a (PDict kvs) = False"

text \<open>
  The order comparisons raise \<^verbatim>\<open>TypeError\<close> unless both sides are numbers or both
  are strings. \<open>py_order lt_num lt_str\<close> is one such operator.
\<close>

fun py_order ::
  "(real \<Rightarrow> real \<Rightarrow> bool) \<Rightarrow> (string \<Rightarrow> string \<Rightarrow> bool) \<Rightarrow> scalar \<Rightarrow> pyval \<Rightarrow> error + bool"
where
  "py_order rn rs a (Sc b) =
     (case (num_of a, num_of b) of
        (Some x, Some y) \<Rightarrow> Inr (rn x y)
      | _ \<Rightarrow> (case (a, b) of
                (SStr u, SStr v) \<Rightarrow> Inr (rs u v)
              | _ \<Rightarrow> Inl TypeError))"
| "py_order rn rs a (PList xs) = Inl TypeError"
| "py_order rn rs a (PDict kvs) = Inl TypeError"

text \<open>
  \<^verbatim>\<open>getattr(pyop, self.typ.name.lower())\<close>: the function of the \<^verbatim>\<open>operator\<close>
  module for a relational \<^verbatim>\<open>CompareType\<close>. The constructor of \<^verbatim>\<open>Compare\<close> returns before
  this lookup for \<^verbatim>\<open>NOT\<close>, \<^verbatim>\<open>OR\<close> and \<^verbatim>\<open>AND\<close>, so there is no function for them.
\<close>

fun opfn :: "CompareType \<Rightarrow> (scalar \<Rightarrow> pyval \<Rightarrow> error + bool) option" where
  "opfn EQ = Some (\<lambda>a b. Inr (py_eq a b))"
| "opfn NE = Some (\<lambda>a b. Inr (\<not> py_eq a b))"
| "opfn GT = Some (py_order (\<lambda>x y. x > y) (\<lambda>u v. str_lt v u))"
| "opfn LT = Some (py_order (\<lambda>x y. x < y) (\<lambda>u v. str_lt u v))"
| "opfn GE = Some (py_order (\<lambda>x y. x \<ge> y) (\<lambda>u v. \<not> str_lt u v))"
| "opfn LE = Some (py_order (\<lambda>x y. x \<le> y) (\<lambda>u v. \<not> str_lt v u))"
| "opfn NOT = None"
| "opfn OR = None"
| "opfn AND = None"

text \<open>
  \<^verbatim>\<open>step % v\<close> for a numeric \<open>step\<close>: the remainder has the sign of the divisor, a zero
  divisor raises. (With a string on the left \<^verbatim>\<open>%\<close> is string formatting; the callers
  test \<^verbatim>\<open>step > 0\<close> first, which raises for a string, so that reading never occurs and
  is \<^verbatim>\<open>TypeError\<close> here.)
\<close>

fun is_integral :: "scalar \<Rightarrow> int option" where
  "is_integral (SBool b) = Some (if b then 1 else 0)"
| "is_integral (SInt i) = Some i"
| "is_integral _ = None"

definition py_mod :: "scalar \<Rightarrow> scalar \<Rightarrow> error + scalar" where
  "py_mod a b =
     (case (num_of a, num_of b) of
        (Some x, Some y) \<Rightarrow>
          if y = 0 then Inl ZeroDivisionError
          else (case (is_integral a, is_integral b) of
                  (Some i, Some j) \<Rightarrow> Inr (SInt (i mod j))
                | _ \<Rightarrow> Inr (SFloat (x - y * of_int \<lfloor>x / y\<rfloor>)))
      | _ \<Rightarrow> Inl TypeError)"

text \<open>\<^verbatim>\<open>all(f(v) for v in vs)\<close>: stops at the first false value, raises what \<open>f\<close> raises.\<close>

fun py_all :: "('a \<Rightarrow> error + bool) \<Rightarrow> 'a list \<Rightarrow> error + bool" where
  "py_all f [] = Inr True"
| "py_all f (v # vs) =
     (case f v of
        Inl e \<Rightarrow> Inl e
      | Inr b \<Rightarrow> if b then py_all f vs else Inr False)"

text \<open>\<^verbatim>\<open>state[k]\<close> for an enum key.\<close>

definition get_cond :: "'t state \<Rightarrow> CondType \<Rightarrow> error + scalar" where
  "get_cond st k = (case cond st k of None \<Rightarrow> Inl KeyError | Some v \<Rightarrow> Inr v)"

section \<open>Compare, Condition, ConditionGroup\<close>

text \<open>
  A \<^verbatim>\<open>Compare\<close> object is either relational (\<open>CompareLeaf\<close>: \<^verbatim>\<open>typ\<close>, \<^verbatim>\<open>field\<close>, the
  comparison values) or boolean (\<open>CompareComposite\<close>: \<^verbatim>\<open>typ\<close> and a tuple of condition
  groups). A \<^verbatim>\<open>Condition\<close> holds a set of scalars, listed here in the set's iteration
  order, or for \<^verbatim>\<open>CondType.COND\<close> a \<^verbatim>\<open>Compare\<close>. A \<^verbatim>\<open>ConditionGroup\<close> is its tuple
  \<^verbatim>\<open>conds\<close>.
\<close>

datatype Compare =
    CompareLeaf CompareType CondType "pyval list"
  | CompareComposite CompareType "Condition list list"
and Condition =
    Condition CondType "scalar list"
  | ConditionCompare Compare

type_synonym ConditionGroup = "Condition list"

text \<open>
  \<^verbatim>\<open>Compare.test\<close>, \<^verbatim>\<open>Condition.test\<close> and \<^verbatim>\<open>ConditionGroup.test\<close>. \<open>groups_all\<close>,
  \<open>groups_any\<close> and \<open>groups_none\<close> are the three generator expressions of
  \<^verbatim>\<open>Compare.test\<close> over the nested groups: \<^verbatim>\<open>all(v.test(state) ...)\<close>,
  \<^verbatim>\<open>any(v.test(state) ...)\<close> and \<^verbatim>\<open>all(not v.test(state) ...)\<close>.

  The objects that the constructors cannot build are given the behaviour Python would
  show on them: calling \<^verbatim>\<open>test\<close> on a value that has none, or reading the attribute
  \<^verbatim>\<open>opfn\<close> that was never set, raises \<^verbatim>\<open>AttributeError\<close>.
\<close>

fun Compare_test :: "Compare \<Rightarrow> 't state \<Rightarrow> error + bool"
and Condition_test :: "Condition \<Rightarrow> 't state \<Rightarrow> error + bool"
and ConditionGroup_test :: "Condition list \<Rightarrow> 't state \<Rightarrow> error + bool"
and groups_all :: "Condition list list \<Rightarrow> 't state \<Rightarrow> error + bool"
and groups_any :: "Condition list list \<Rightarrow> 't state \<Rightarrow> error + bool"
and groups_none :: "Condition list list \<Rightarrow> 't state \<Rightarrow> error + bool"
where
  "Compare_test (CompareComposite typ gs) st =
     (case typ of
        NOT \<Rightarrow> groups_none gs st
      | AND \<Rightarrow> groups_all gs st
      | OR \<Rightarrow> groups_any gs st
      | _ \<Rightarrow> Inl AttributeError)"
| "Compare_test (CompareLeaf typ field vals) st =
     (case typ of
        NOT \<Rightarrow> if vals = [] then Inr True else Inl AttributeError
      | AND \<Rightarrow> if vals = [] then Inr True else Inl AttributeError
      | OR \<Rightarrow> if vals = [] then Inr False else Inl AttributeError
      | _ \<Rightarrow>
        (case opfn typ of
           None \<Rightarrow> Inl AttributeError
         | Some f \<Rightarrow>
           (case get_cond st field of
              Inl e \<Rightarrow> Inl e
            | Inr fieldval \<Rightarrow> py_all (f fieldval) vals)))"
| "Condition_test (ConditionCompare c) st = Compare_test c st"
| "Condition_test (Condition typ vals) st =
     (case typ of
        FROM_PERCENT \<Rightarrow>
          (case get_cond st PERCENT of
             Inl e \<Rightarrow> Inl e
           | Inr pct \<Rightarrow> py_all (\<lambda>v. py_order (\<lambda>x y. x \<ge> y) (\<lambda>u v. \<not> str_lt u v) pct (Sc v)) vals)
      | TO_PERCENT \<Rightarrow>
          (case get_cond st PERCENT of
             Inl e \<Rightarrow> Inl e
           | Inr pct \<Rightarrow> py_all (\<lambda>v. py_order (\<lambda>x y. x \<le> y) (\<lambda>u v. \<not> str_lt v u) pct (Sc v)) vals)
      | FROM_STEP \<Rightarrow>
          (case get_cond st STEP of
             Inl e \<Rightarrow> Inl e
           | Inr step \<Rightarrow>
             (case py_order (\<lambda>x y. x > y) (\<lambda>u v. str_lt v u) step (Sc (SInt 0)) of
                Inl e \<Rightarrow> Inl e
              | Inr pos \<Rightarrow>
                  if pos
                  then py_all (\<lambda>v. py_order (\<lambda>x y. x \<ge> y) (\<lambda>u v. \<not> str_lt u v) step (Sc v)) vals
                  else Inr False))
      | TO_STEP \<Rightarrow>
          (case get_cond st STEP of
             Inl e \<Rightarrow> Inl e
           | Inr step \<Rightarrow>
             (case py_order (\<lambda>x y. x > y) (\<lambda>u v. str_lt v u) step (Sc (SInt 0)) of
                Inl e \<Rightarrow> Inl e
              | Inr pos \<Rightarrow>
                  if pos
                  then py_all (\<lambda>v. py_order (\<lambda>x y. x \<le> y) (\<lambda>u v. \<not> str_lt v u) step (Sc v)) vals
                  else Inr False))
      | STEP_INTERVAL \<Rightarrow>
          (case get_cond st STEP of
             Inl e \<Rightarrow> Inl e
           | Inr step \<Rightarrow>
             (case py_order (\<lambda>x y. x > y) (\<lambda>u v. str_lt v u) step (Sc (SInt 0)) of
                Inl e \<Rightarrow> Inl e
              | Inr pos \<Rightarrow>
                  if pos
                  then py_all (\<lambda>v. case py_mod step v of
                                      Inl e \<Rightarrow> Inl e
                                    | Inr r \<Rightarrow> Inr (py_eq r (Sc (SInt 0)))) vals
                  else Inr False))
      | COND \<Rightarrow> Inl AttributeError
      | _ \<Rightarrow>
          (case get_cond st typ of
             Inl e \<Rightarrow> Inl e
           | Inr v \<Rightarrow> Inr (\<exists>x \<in> set vals. py_eq v (Sc x))))"
| "ConditionGroup_test [] st = Inr True"
| "ConditionGroup_test (c # cs) st =
     (case Condition_test c st of
        Inl e \<Rightarrow> Inl e
      | Inr b \<Rightarrow> if b then ConditionGroup_test cs st else Inr False)"
| "groups_all [] st = Inr True"
| "groups_all (g # gs) st =
     (case ConditionGroup_test g st of
        Inl e \<Rightarrow> Inl e
      | Inr b \<Rightarrow> if b then groups_all gs st else Inr False)"
| "groups_any [] st = Inr False"
| "groups_any (g # gs) st =
     (case ConditionGroup_test g st of
        Inl e \<Rightarrow> Inl e
      | Inr b \<Rightarrow> if b then Inr True else groups_any gs st)"
| "groups_none [] st = Inr True"
| "groups_none (g # gs) st =
     (case ConditionGroup_test g st of
        Inl e \<Rightarrow> Inl e
      | Inr b \<Rightarrow> if b then Inr False else groups_none gs st)"


section \<open>Python built-ins on YAML data\<close>

fun py_truthy :: "pyval \<Rightarrow> bool" where
  "py_truthy (Sc SNone) = False"
| "py_truthy (Sc (SBool b)) = b"
| "py_truthy (Sc (SInt i)) = (i \<noteq> 0)"
| "py_truthy (Sc (SFloat r)) = (r \<noteq> 0)"
| "py_truthy (Sc (SStr s)) = (s \<noteq> [])"
| "py_truthy (PList xs) = (xs \<noteq> [])"
| "py_truthy (PDict kvs) = (kvs \<noteq> [])"

fun py_len :: "pyval \<Rightarrow> error + nat" where
  "py_len (Sc (SStr s)) = Inr (length s)"
| "py_len (PList xs) = Inr (length xs)"
| "py_len (PDict kvs) = Inr (length kvs)"
| "py_len (Sc _) = Inl TypeError"

text \<open>\<^verbatim>\<open>xs[i]\<close> on a sequence of length \<open>n\<close>: a negative index counts from the end.\<close>

definition seq_index :: "'a list \<Rightarrow> int \<Rightarrow> error + 'a" where
  "seq_index xs i =
     (if 0 \<le> i \<and> i < int (length xs) then Inr (xs ! nat i)
      else if i < 0 \<and> - int (length xs) \<le> i then Inr (xs ! nat (int (length xs) + i))
      else Inl IndexError)"

text \<open>\<^verbatim>\<open>d[k]\<close> and \<^verbatim>\<open>d.get(k)\<close> on a dict: the entry whose key equals \<open>k\<close>.\<close>

fun dict_find :: "(scalar \<times> pyval) list \<Rightarrow> scalar \<Rightarrow> pyval option" where
  "dict_find [] k = None"
| "dict_find ((k', v) # kvs) k = (if py_eq k' (Sc k) then Some v else dict_find kvs k)"

fun py_getitem :: "pyval \<Rightarrow> int \<Rightarrow> error + pyval" where
  "py_getitem (PList xs) i = seq_index xs i"
| "py_getitem (Sc (SStr s)) i =
     (case seq_index s i of Inl e \<Rightarrow> Inl e | Inr c \<Rightarrow> Inr (Sc (SStr [c])))"
| "py_getitem (PDict kvs) i =
     (case dict_find kvs (SInt i) of None \<Rightarrow> Inl KeyError | Some v \<Rightarrow> Inr v)"
| "py_getitem (Sc _) i = Inl TypeError"

text \<open>\<^verbatim>\<open>for x in v\<close>: a string yields its characters, a dict its keys.\<close>

fun py_iter :: "pyval \<Rightarrow> error + pyval list" where
  "py_iter (PList xs) = Inr xs"
| "py_iter (Sc (SStr s)) = Inr (map (\<lambda>c. Sc (SStr [c])) s)"
| "py_iter (PDict kvs) = Inr (map (\<lambda>(k, _). Sc k) kvs)"
| "py_iter (Sc _) = Inl TypeError"

fun is_str :: "pyval \<Rightarrow> bool" where
  "is_str (Sc (SStr s)) = True"
| "is_str _ = False"

section \<open>Enum lookup by name\<close>

definition to_upper :: "char \<Rightarrow> char" where
  "to_upper c =
     (case map_of (zip ''abcdefghijklmnopqrstuvwxyz'' ''ABCDEFGHIJKLMNOPQRSTUVWXYZ'') c of
        None \<Rightarrow> c
      | Some u \<Rightarrow> u)"

definition is_space :: "char \<Rightarrow> bool" where
  "is_space c =
     (c \<in> set [CHR 0x09, CHR 0x0A, CHR 0x0B, CHR 0x0C, CHR 0x0D, CHR 0x1C, CHR 0x1D, CHR 0x1E,
                CHR 0x1F, CHR 0x20, CHR 0x85, CHR 0xA0])"

definition upper_strip :: "string \<Rightarrow> string" where
  "upper_strip s = rev (dropWhile is_space (rev (dropWhile is_space (map to_upper s))))"

definition OpType_names :: "(string \<times> OpType) list" where
  "OpType_names =
     [(''SLICE'', SLICE), (''FFILTER'', FFILTER), (''SCALE_TORCH'', SCALE_TORCH),
      (''UNSCALE_TORCH'', UNSCALE_TORCH), (''SCALE'', SCALE), (''UNSCALE'', UNSCALE),
      (''FLIP'', FLIP), (''ROT90'', ROT90), (''ROLL_CHANNELS'', ROLL_CHANNELS),
      (''ROLL'', ROLL), (''TARGET_SKIP'', TARGET_SKIP), (''MULTIPLY'', MULTIPLY),
      (''BLEND_OP'', BLEND_OP), (''MASK_EXAMPLE_OP'', MASK_EXAMPLE_OP),
      (''ANTIALIAS'', ANTIALIAS), (''NOISE'', NOISE), (''DEBUG'', DEBUG)]"

definition CondType_names :: "(string \<times> CondType) list" where
  "CondType_names =
     [(''TYPE'', TYPE'), (''BLOCK'', BLOCK), (''STAGE'', STAGE),
      (''FROM_PERCENT'', FROM_PERCENT), (''TO_PERCENT'', TO_PERCENT), (''PERCENT'', PERCENT),
      (''STEP'', STEP), (''STEP_EXACT'', STEP_EXACT), (''FROM_STEP'', FROM_STEP),
      (''TO_STEP'', TO_STEP), (''STEP_INTERVAL'', STEP_INTERVAL), (''COND'', COND)]"

definition CompareType_names :: "(string \<times> CompareType) list" where
  "CompareType_names =
     [(''EQ'', EQ), (''NE'', NE), (''GT'', GT), (''LT'', LT), (''GE'', GE), (''LE'', LE),
      (''NOT'', NOT), (''OR'', OR), (''AND'', AND)]"

text \<open>\<^verbatim>\<open>getattr(E, typ.upper().strip())\<close>; a \<open>typ\<close> that is no string has no \<^verbatim>\<open>upper\<close>.\<close>

fun enum_of :: "(string \<times> 'e) list \<Rightarrow> pyval \<Rightarrow> error + 'e" where
  "enum_of names (Sc (SStr s)) =
     (case map_of names (upper_strip s) of None \<Rightarrow> Inl AttributeError | Some e \<Rightarrow> Inr e)"
| "enum_of names _ = Inl AttributeError"


section \<open>Operations and rules\<close>

datatype Operation = Operation OpType "pyval list"

datatype Rule = Rule (conds: "Condition list") (ops: "Operation list")
  (matched: "Rule list") (nomatched: "Rule list")

section \<open>Construction from the declarative document\<close>

text \<open>
  \<^verbatim>\<open>set(...)\<close> in \<^verbatim>\<open>Condition.__init__\<close>: every element must be hashable, equal elements are
  kept once. The order of a Python set is unspecified; the model lists the elements in
  the order of their first occurrence.
\<close>

fun py_set :: "scalar list \<Rightarrow> pyval list \<Rightarrow> error + scalar list" where
  "py_set acc [] = Inr acc"
| "py_set acc (Sc s # vs) =
     py_set (if \<exists>x \<in> set acc. py_eq x (Sc s) then acc else acc @ [s]) vs"
| "py_set acc (_ # vs) = Inl TypeError"

definition VALID_TYPES :: "CondType list" where
  "VALID_TYPES = [TYPE', BLOCK, STAGE, PERCENT, STEP, STEP_EXACT]"

text \<open>
  \<^verbatim>\<open>ConditionGroup(k)\<close> and \<^verbatim>\<open>Condition(k1, k2)\<close> for scalars. These are the shapes a
  well-formed document never has; what Python does with them is fixed without recursion.
  A string is a sequence of one-character strings, and no enum member has a
  one-character name.
\<close>

fun Condition_of_scalars :: "scalar \<Rightarrow> scalar \<Rightarrow> error + Condition" where
  "Condition_of_scalars k1 k2 =
     (case enum_of CondType_names (Sc k1) of
        Inl e \<Rightarrow> Inl e
      | Inr t \<Rightarrow>
          if t \<noteq> COND then Inr (Condition t [k2])
          else (case k2 of
                  SStr s \<Rightarrow> if s = [] then Inl IndexError else Inl AttributeError
                | _ \<Rightarrow> Inl TypeError))"

fun ConditionGroup_of_scalar :: "scalar \<Rightarrow> error + Condition list" where
  "ConditionGroup_of_scalar k =
     (if \<not> py_truthy (Sc k) then Inr []
      else (case k of
              SStr s \<Rightarrow> if length s = 2 then Inl AttributeError else Inl (ValueError ''unpack'')
            | _ \<Rightarrow> Inl TypeError))"

text \<open>
  \<^verbatim>\<open>Compare.__init__(typ, value)\<close>, \<^verbatim>\<open>Condition.__init__(typ, value)\<close> and
  \<^verbatim>\<open>ConditionGroup.__init__(conds)\<close>. \<open>Conditions_init\<close> is the generator
  \<^verbatim>\<open>Condition(ct, cv) for ct, cv in conds\<close>, \<open>Condition_of_item\<close> one step of it (the
  unpacking of an item into \<^verbatim>\<open>ct, cv\<close> and the constructor call), \<open>Condition_of_entries\<close> the
  same generator over \<^verbatim>\<open>conds.items()\<close>, and \<open>ConditionGroups_init\<close> the generator
  \<^verbatim>\<open>ConditionGroup(v) for v in value\<close>.
\<close>

fun Compare_init :: "pyval \<Rightarrow> pyval list \<Rightarrow> error + Compare"
and Condition_init :: "pyval \<Rightarrow> pyval \<Rightarrow> error + Condition"
and Condition_of_item :: "pyval \<Rightarrow> error + Condition"
and Conditions_init :: "pyval list \<Rightarrow> error + Condition list"
and Condition_of_entries :: "(scalar \<times> pyval) list \<Rightarrow> error + Condition list"
and ConditionGroup_init :: "pyval \<Rightarrow> error + Condition list"
and ConditionGroups_init :: "pyval list \<Rightarrow> error + Condition list list"
where
  "Compare_init typ_name vals =
     (case enum_of CompareType_names typ_name of
        Inl e \<Rightarrow> Inl e
      | Inr t \<Rightarrow>
          if t = OR \<or> t = AND \<or> t = NOT
          then (case ConditionGroups_init vals of
                  Inl e \<Rightarrow> Inl e
                | Inr gs \<Rightarrow> Inr (CompareComposite t gs))
          else (case vals of
                  [] \<Rightarrow> Inl IndexError
                | f # rest \<Rightarrow>
                   (case enum_of CondType_names f of
                      Inl e \<Rightarrow> Inl e
                    | Inr field \<Rightarrow>
                        if field \<notin> set VALID_TYPES then Inl TypeError
                        else Inr (CompareLeaf t field rest))))"
| "Condition_init typ_name v =
     (case enum_of CondType_names typ_name of
        Inl e \<Rightarrow> Inl e
      | Inr t \<Rightarrow>
          if t \<noteq> COND
          then (case py_set [] (case v of PList xs \<Rightarrow> xs | _ \<Rightarrow> [v]) of
                  Inl e \<Rightarrow> Inl e
                | Inr s \<Rightarrow> Inr (Condition t s))
          else (case v of
                  PList [] \<Rightarrow> Inl IndexError
                | PList (x # xs) \<Rightarrow>
                   (case Compare_init x xs of
                      Inl e \<Rightarrow> Inl e
                    | Inr c \<Rightarrow> Inr (ConditionCompare c))
                | Sc (SStr s) \<Rightarrow> if s = [] then Inl IndexError else Inl AttributeError
                | PDict kvs \<Rightarrow>
                   (case dict_find kvs (SInt 0) of None \<Rightarrow> Inl KeyError | Some _ \<Rightarrow> Inl TypeError)
                | Sc _ \<Rightarrow> Inl TypeError))"
| "Condition_of_item (PList [ct, cv]) = Condition_init ct cv"
| "Condition_of_item (PList _) = Inl (ValueError ''unpack'')"
| "Condition_of_item (Sc (SStr s)) =
     (if length s = 2 then Inl AttributeError else Inl (ValueError ''unpack''))"
| "Condition_of_item (PDict [(k1, _), (k2, _)]) = Condition_of_scalars k1 k2"
| "Condition_of_item (PDict _) = Inl (ValueError ''unpack'')"
| "Condition_of_item (Sc _) = Inl TypeError"
| "Conditions_init [] = Inr []"
| "Conditions_init (c # cs) =
     (case Condition_of_item c of
        Inl e \<Rightarrow> Inl e
      | Inr k \<Rightarrow> (case Conditions_init cs of Inl e \<Rightarrow> Inl e | Inr ks \<Rightarrow> Inr (k # ks)))"
| "Condition_of_entries [] = Inr []"
| "Condition_of_entries ((k, v) # kvs) =
     (case Condition_init (Sc k) v of
        Inl e \<Rightarrow> Inl e
      | Inr c \<Rightarrow> (case Condition_of_entries kvs of Inl e \<Rightarrow> Inl e | Inr cs \<Rightarrow> Inr (c # cs)))"
| "ConditionGroup_init (PList []) = Inr []"
| "ConditionGroup_init (PList (x # xs)) =
     (if is_str x
      then (case Condition_of_item (PList (x # xs)) of Inl e \<Rightarrow> Inl e | Inr k \<Rightarrow> Inr [k])
      else Conditions_init (x # xs))"
| "ConditionGroup_init (PDict []) = Inr []"
| "ConditionGroup_init (PDict (kv # kvs)) = Condition_of_entries (kv # kvs)"
| "ConditionGroup_init (Sc k) = ConditionGroup_of_scalar k"
| "ConditionGroups_init [] = Inr []"
| "ConditionGroups_init (v # vs) =
     (case ConditionGroup_init v of
        Inl e \<Rightarrow> Inl e
      | Inr g \<Rightarrow> (case ConditionGroups_init vs of Inl e \<Rightarrow> Inl e | Inr gs \<Rightarrow> Inr (g # gs)))"

fun Operation_of_item :: "pyval \<Rightarrow> error + Operation" where
  "Operation_of_item (PList []) = Inl IndexError"
| "Operation_of_item (PList (x # xs)) =
     (case enum_of OpType_names x of Inl e \<Rightarrow> Inl e | Inr t \<Rightarrow> Inr (Operation t xs))"
| "Operation_of_item (Sc (SStr s)) = (if s = [] then Inl IndexError else Inl AttributeError)"
| "Operation_of_item (PDict kvs) =
     (case dict_find kvs (SInt 0) of None \<Rightarrow> Inl KeyError | Some _ \<Rightarrow> Inl TypeError)"
| "Operation_of_item (Sc _) = Inl TypeError"

fun Operations_of_items :: "pyval list \<Rightarrow> error + Operation list" where
  "Operations_of_items [] = Inr []"
| "Operations_of_items (x # xs) =
     (case Operation_of_item x of
        Inl e \<Rightarrow> Inl e
      | Inr o1 \<Rightarrow> (case Operations_of_items xs of Inl e \<Rightarrow> Inl e | Inr os \<Rightarrow> Inr (o1 # os)))"

fun Operations_init :: "pyval \<Rightarrow> error + Operation list" where
  "Operations_init (PList []) = Inr []"
| "Operations_init (PList (x # xs)) =
     (if is_str x then Operations_of_items [PList (x # xs)] else Operations_of_items (x # xs))"
| "Operations_init (Sc (SStr s)) =
     (if s = [] then Inr [] else Operations_of_items [Sc (SStr s)])"
| "Operations_init (PDict []) = Inr []"
| "Operations_init (PDict (kv # kvs)) =
     (case dict_find (kv # kvs) (SInt 0) of
        None \<Rightarrow> Inl KeyError
      | Some v \<Rightarrow>
          if is_str v then Operations_of_items [PDict (kv # kvs)]
          else Operations_of_items (map (\<lambda>(k, _). Sc k) (kv # kvs)))"
| "Operations_init (Sc _) = Inl TypeError"

lemma dict_find_size: "dict_find kvs k = Some v \<Longrightarrow> size v < size (PDict kvs)"
  by (induction kvs) (auto split: if_splits)

function Rule_from_dict :: "pyval \<Rightarrow> error + Rule list"
and Rules_of_items :: "pyval list \<Rightarrow> error + Rule list"
and Rule_init :: "(scalar \<times> pyval) list \<Rightarrow> error + Rule"
where
  "Rule_from_dict (PList ds) = Rules_of_items ds"
| "Rule_from_dict (PDict kvs) =
     (case Rule_init kvs of Inl e \<Rightarrow> Inl e | Inr r \<Rightarrow> Inr [r])"
| "Rule_from_dict (Sc k) = Inl AttributeError"
| "Rules_of_items [] = Inr []"
| "Rules_of_items (d # ds) =
     (case d of
        PDict kvs \<Rightarrow>
          (case Rule_init kvs of
             Inl e \<Rightarrow> Inl e
           | Inr r \<Rightarrow> (case Rules_of_items ds of Inl e \<Rightarrow> Inl e | Inr rs \<Rightarrow> Inr (r # rs)))
      | _ \<Rightarrow> Inl AttributeError)"
| "Rule_init kvs =
     (case ConditionGroup_init (case dict_find kvs (SStr ''if'') of None \<Rightarrow> PList [] | Some v \<Rightarrow> v) of
        Inl e \<Rightarrow> Inl e
      | Inr c \<Rightarrow>
     (case Operations_init (case dict_find kvs (SStr ''ops'') of None \<Rightarrow> PList [] | Some v \<Rightarrow> v) of
        Inl e \<Rightarrow> Inl e
      | Inr os \<Rightarrow>
     (case (case dict_find kvs (SStr ''then'') of None \<Rightarrow> Inr [] | Some v \<Rightarrow> Rule_from_dict v) of
        Inl e \<Rightarrow> Inl e
      | Inr m \<Rightarrow>
     (case (case dict_find kvs (SStr ''else'') of None \<Rightarrow> Inr [] | Some v \<Rightarrow> Rule_from_dict v) of
        Inl e \<Rightarrow> Inl e
      | Inr n \<Rightarrow> Inr (Rule c os m n)))))"
  by pat_completeness auto
termination
  by (relation "inv_image (less_than <*lex*> less_than)
        (\<lambda>x. case x of
           Inl v \<Rightarrow> (size v, 2::nat)
         | Inr (Inl ds) \<Rightarrow> (size (PList ds), 1)
         | Inr (Inr kvs) \<Rightarrow> (size (PDict kvs), 0))")
     (auto dest: dict_find_size)

text \<open>
  \<^verbatim>\<open>RuleGroup.from_yaml\<close> after the YAML text is parsed: the rule group of the first
  rule that \<^verbatim>\<open>Rule.from_dict\<close> returns for each item of the parsed document.
\<close>

fun first_rules :: "pyval list \<Rightarrow> error + Rule list" where
  "first_rules [] = Inr []"
| "first_rules (r # rs) =
     (case Rule_from_dict r of
        Inl e \<Rightarrow> Inl e
      | Inr [] \<Rightarrow> Inl IndexError
      | Inr (x # _) \<Rightarrow> (case first_rules rs of Inl e \<Rightarrow> Inl e | Inr xs \<Rightarrow> Inr (x # xs)))"

definition RuleGroup_from_parsed :: "pyval \<Rightarrow> error + Rule list" where
  "RuleGroup_from_parsed parsed_rules =
     (case py_iter parsed_rules of Inl e \<Rightarrow> Inl e | Inr rs \<Rightarrow> first_rules rs)"

section \<open>Sequencing of computations that may raise\<close>

definition ebind :: "error + 'a \<Rightarrow> ('a \<Rightarrow> error + 'b) \<Rightarrow> error + 'b" where
  "ebind m f = (case m of Inl e \<Rightarrow> Inl e | Inr x \<Rightarrow> f x)"

lemma ebind_simps [simp]: "ebind (Inl e) f = Inl e" "ebind (Inr x) f = f x"
  by (simp_all add: ebind_def)

lemma ebind_cong [fundef_cong]:
  "m = m' \<Longrightarrow> (\<And>x. m' = Inr x \<Longrightarrow> f x = f' x) \<Longrightarrow> ebind m f = ebind m' f'"
  by (cases m') (simp_all add: ebind_def)

section \<open>The tensor library\<close>

text \<open>
  The functions of \<^verbatim>\<open>torch\<close> and of the module \<^verbatim>\<open>latent_utils\<close> (\<^verbatim>\<open>scale_samples\<close>,
  \<^verbatim>\<open>ffilter\<close>, \<^verbatim>\<open>antialias_tensor\<close>, the tables \<^verbatim>\<open>BLENDING_MODES\<close> and
  \<^verbatim>\<open>FILTER_PRESETS\<close>) are parameters of the model. Each takes tensors and YAML values
  and returns a new tensor or raises. \<open>shape\<close> is \<^verbatim>\<open>t.shape\<close>. The numeric content of
  the tensor expressions of the source is one parameter each:
  \<^item> \<open>tensor_mul t x\<close> is \<^verbatim>\<open>t * x\<close> for a Python value \<open>x\<close>;
  \<^item> \<open>slice_channels t n\<close> is \<^verbatim>\<open>t[:, :n]\<close> and \<open>set_channels t n r\<close> is \<open>t\<close> after
    \<^verbatim>\<open>t[:, :n] = r\<close>;
  \<^item> \<open>hidden_mean\<close> is the function \<^verbatim>\<open>hidden_mean\<close> of the source, the channel mean of
    a tensor normalised to \<open>[0, 1]\<close> per batch entry, and \<open>scale_by_mean s x m\<close> is
    \<^verbatim>\<open>s * ((x - 1) * m + 1)\<close>;
  \<^item> \<open>mask_tensor rows t\<close> is \<^verbatim>\<open>torch.tensor(rows, dtype=t.dtype, device="cpu")\<close>
    viewed as \<^verbatim>\<open>(1, 1, *shape)\<close> on the device of \<open>t\<close>;
  \<^item> \<open>mask_mix a t m\<close> is \<^verbatim>\<open>a * m + t * (1 - m)\<close>;
  \<^item> \<open>add_noise t n s x\<close> is \<open>t\<close> after \<^verbatim>\<open>t += n * s * x\<close>;
  \<^item> \<open>randn_like g t\<close> draws \<^verbatim>\<open>torch.randn_like(t)\<close> from the generator state \<open>g\<close>
    and returns the new generator state;
  \<^item> \<open>int_of_str\<close> is \<^verbatim>\<open>int(s)\<close> for a string.
\<close>

record 't lib =
  shape :: "'t \<Rightarrow> nat list"
  scale_samples :: "'t \<Rightarrow> int \<Rightarrow> int \<Rightarrow> pyval \<Rightarrow> pyval option \<Rightarrow> pyval \<Rightarrow> error + 't"
  torch_flip :: "'t \<Rightarrow> nat \<Rightarrow> error + 't"
  torch_rot90 :: "'t \<Rightarrow> pyval \<Rightarrow> error + 't"
  torch_roll :: "'t \<Rightarrow> pyval \<Rightarrow> pyval \<Rightarrow> error + 't"
  FILTER_PRESETS :: "string \<rightharpoonup> pyval"
  ffilter :: "'t \<Rightarrow> pyval \<Rightarrow> pyval \<Rightarrow> pyval \<Rightarrow> pyval \<Rightarrow> error + 't"
  BLENDING_MODES :: "string \<rightharpoonup> ('t \<Rightarrow> 't \<Rightarrow> pyval \<Rightarrow> error + 't)"
  antialias_tensor :: "'t \<Rightarrow> pyval \<Rightarrow> error + 't"
  randn_like :: "nat \<Rightarrow> 't \<Rightarrow> 't \<times> nat"
  tensor_mul :: "'t \<Rightarrow> pyval \<Rightarrow> error + 't"
  slice_channels :: "'t \<Rightarrow> int \<Rightarrow> error + 't"
  set_channels :: "'t \<Rightarrow> int \<Rightarrow> 't \<Rightarrow> error + 't"
  hidden_mean :: "'t \<Rightarrow> error + 't"
  scale_by_mean :: "'t \<Rightarrow> pyval \<Rightarrow> 't \<Rightarrow> error + 't"
  mask_tensor :: "pyval list list \<Rightarrow> 't \<Rightarrow> error + 't"
  broadcast_to :: "'t \<Rightarrow> nat list \<Rightarrow> error + 't"
  mask_mix :: "'t \<Rightarrow> 't \<Rightarrow> 't \<Rightarrow> error + 't"
  add_noise :: "'t \<Rightarrow> 't \<Rightarrow> scalar \<Rightarrow> pyval \<Rightarrow> error + 't"
  int_of_str :: "string \<Rightarrow> error + int"

section \<open>Reading and writing the state\<close>

text \<open>\<^verbatim>\<open>state[k]\<close> for a string key.\<close>

definition get_slot :: "'t state \<Rightarrow> string \<Rightarrow> error + 't slotval" where
  "get_slot st k = (case slots st k of None \<Rightarrow> Inl KeyError | Some v \<Rightarrow> Inr v)"

definition set_slot :: "'t state \<Rightarrow> string \<Rightarrow> 't slotval \<Rightarrow> 't state" where
  "set_slot st k v = st\<lparr>slots := (slots st)(k \<mapsto> v)\<rparr>"

definition del_slot :: "'t state \<Rightarrow> string \<Rightarrow> 't state" where
  "del_slot st k = st\<lparr>slots := (slots st)(k := None)\<rparr>"

text \<open>
  \<^verbatim>\<open>state[state["target"]]\<close>: the value under \<^verbatim>\<open>"target"\<close> is used as a key. Only a
  string can be a key of the state besides the enum members.
\<close>

definition target_of :: "'t state \<Rightarrow> error + string" where
  "target_of st =
     (case slots st ''target'' of
        Some (Val (SStr k)) \<Rightarrow> Inr k
      | _ \<Rightarrow> Inl KeyError)"

definition with_target :: "'t state \<Rightarrow> ('t slotval \<Rightarrow> error + 'a) \<Rightarrow> error + 'a" where
  "with_target st f = ebind (target_of st) (\<lambda>k. ebind (get_slot st k) f)"

lemma with_target_cong [fundef_cong]:
  "st = st' \<Longrightarrow> (\<And>k t. target_of st' = Inr k \<Longrightarrow> get_slot st' k = Inr t \<Longrightarrow> f t = f' t)
   \<Longrightarrow> with_target st f = with_target st' f'"
  by (auto simp: with_target_def ebind_def split: sum.splits)

text \<open>The last statement of \<^verbatim>\<open>Operation.eval\<close>: \<^verbatim>\<open>state[state["target"]] = out\<close>.\<close>

definition assign_target :: "'t state \<Rightarrow> 't slotval \<Rightarrow> error + 't state" where
  "assign_target st out = ebind (target_of st) (\<lambda>k. Inr (set_slot st k out))"

text \<open>
  A slot value used as a tensor. Where the source reads an attribute of the value
  (\<^verbatim>\<open>t.shape\<close>, \<^verbatim>\<open>t.clone()\<close>, \<^verbatim>\<open>t.dtype\<close>) a value that is no tensor raises
  \<^verbatim>\<open>AttributeError\<close>; where it hands the value to a library function or to an
  arithmetic operator the model raises \<^verbatim>\<open>TypeError\<close>. In the states that the patches
  build, \<^verbatim>\<open>"target"\<close> always names a slot that holds a tensor.
\<close>

fun as_tensor :: "error \<Rightarrow> 't slotval \<Rightarrow> error + 't" where
  "as_tensor e (Tensor t) = Inr t"
| "as_tensor e (Val v) = Inl e"

section \<open>Python arithmetic used by the operations\<close>

text \<open>\<^verbatim>\<open>round(x)\<close> of a float: to the nearest integer, a tie to the even one.\<close>

definition py_round :: "real \<Rightarrow> int" where
  "py_round x =
     (let f = \<lfloor>x\<rfloor>; d = x - of_int f
      in if d < 1 / 2 then f else if d > 1 / 2 then f + 1 else if even f then f else f + 1)"

text \<open>\<^verbatim>\<open>round(n * x)\<close> for a dimension \<open>n\<close>.\<close>

fun py_round_scaled :: "nat \<Rightarrow> pyval \<Rightarrow> error + int" where
  "py_round_scaled n (Sc (SInt k)) = Inr (int n * k)"
| "py_round_scaled n (Sc (SBool b)) = Inr (if b then int n else 0)"
| "py_round_scaled n (Sc (SFloat r)) = Inr (py_round (real n * r))"
| "py_round_scaled n _ = Inl TypeError"

text \<open>\<^verbatim>\<open>int(x)\<close>: a float is truncated towards zero.\<close>

definition py_trunc :: "real \<Rightarrow> int" where
  "py_trunc x = (if x \<ge> 0 then \<lfloor>x\<rfloor> else \<lceil>x\<rceil>)"

fun py_int :: "'t lib \<Rightarrow> pyval \<Rightarrow> error + int" where
  "py_int L (Sc (SInt i)) = Inr i"
| "py_int L (Sc (SBool b)) = Inr (if b then 1 else 0)"
| "py_int L (Sc (SFloat r)) = Inr (py_trunc r)"
| "py_int L (Sc (SStr s)) = int_of_str L s"
| "py_int L _ = Inl TypeError"

text \<open>\<^verbatim>\<open>shape[i]\<close> for a Python value \<open>i\<close>.\<close>

fun shape_index :: "nat list \<Rightarrow> pyval \<Rightarrow> error + nat" where
  "shape_index sh (Sc (SInt i)) = seq_index sh i"
| "shape_index sh (Sc (SBool b)) = seq_index sh (if b then 1 else 0)"
| "shape_index sh _ = Inl TypeError"

text \<open>\<^verbatim>\<open>a - b\<close> for the values of two slots.\<close>

fun py_sub :: "'t slotval \<Rightarrow> 't slotval \<Rightarrow> error + scalar" where
  "py_sub (Val a) (Val b) =
     (case (num_of a, num_of b) of
        (Some x, Some y) \<Rightarrow>
          (case (is_integral a, is_integral b) of
             (Some i, Some j) \<Rightarrow> Inr (SInt (i - j))
           | _ \<Rightarrow> Inr (SFloat (x - y)))
      | _ \<Rightarrow> Inl TypeError)"
| "py_sub _ _ = Inl TypeError"

text \<open>\<^verbatim>\<open>v == s\<close> and \<^verbatim>\<open>v != 1\<close> for a YAML value \<open>v\<close>.\<close>

fun eq_str :: "pyval \<Rightarrow> string \<Rightarrow> bool" where
  "eq_str (Sc (SStr s)) s' = (s = s')"
| "eq_str _ s' = False"

fun ne_one :: "pyval \<Rightarrow> bool" where
  "ne_one (Sc a) = (\<not> py_eq a (Sc (SInt 1)))"
| "ne_one _ = True"

text \<open>\<^verbatim>\<open>BLENDING_MODES[mode]\<close>: a list or a dict cannot be a key.\<close>

fun blending_mode :: "'t lib \<Rightarrow> pyval \<Rightarrow> error + ('t \<Rightarrow> 't \<Rightarrow> pyval \<Rightarrow> error + 't)" where
  "blending_mode L (Sc (SStr s)) =
     (case BLENDING_MODES L s of None \<Rightarrow> Inl KeyError | Some f \<Rightarrow> Inr f)"
| "blending_mode L (Sc _) = Inl KeyError"
| "blending_mode L _ = Inl TypeError"

section \<open>Operations without nested operations\<close>

text \<open>
  Each function below is one \<^verbatim>\<open>case\<close> of the \<^verbatim>\<open>match\<close> in \<^verbatim>\<open>Operation.eval\<close>, from the
  arguments \<^verbatim>\<open>self.args\<close> and the value \<open>t\<close> of \<^verbatim>\<open>state[state["target"]]\<close>. It returns
  the value of \<^verbatim>\<open>out\<close> at the end of the case, or \<open>None\<close> where the case executes
  \<^verbatim>\<open>return\<close>.
\<close>

definition scale_size :: "'t lib \<Rightarrow> 't \<Rightarrow> pyval \<Rightarrow> pyval \<Rightarrow> error + int \<times> int" where
  "scale_size L t scale_w scale_h =
     ebind (seq_index (shape L t) (-1)) (\<lambda>w.
     ebind (py_round_scaled w scale_w) (\<lambda>width.
     ebind (seq_index (shape L t) (-2)) (\<lambda>h.
     ebind (py_round_scaled h scale_h) (\<lambda>height. Inr (width, height)))))"

text \<open>
  The first lines of the two unscale cases: the read of \<^verbatim>\<open>state["hsp"]\<close>, the
  \<^verbatim>\<open>ValueError\<close> for \<^verbatim>\<open>None\<close> and the comparison of the last two dimensions. The
  result is \<open>None\<close> where the sizes agree and the case returns, else \<open>hsp\<close>.
\<close>

definition unscale_hsp :: "'t lib \<Rightarrow> string \<Rightarrow> 't state \<Rightarrow> 't slotval \<Rightarrow> error + 't option" where
  "unscale_hsp L msg st t =
     ebind (get_slot st ''hsp'') (\<lambda>hsp.
       if hsp = Val SNone then Inl (ValueError msg)
       else
         ebind (as_tensor AttributeError t) (\<lambda>tt.
         ebind (seq_index (shape L tt) (-1)) (\<lambda>tw.
         ebind (as_tensor AttributeError hsp) (\<lambda>hh.
         ebind (seq_index (shape L hh) (-1)) (\<lambda>hw.
           if tw = hw
           then ebind (seq_index (shape L tt) (-2)) (\<lambda>th.
                ebind (seq_index (shape L hh) (-2)) (\<lambda>hht.
                  if th = hht then Inr None else Inr (Some hh)))
           else Inr (Some hh))))))"

definition op_scale_torch :: "'t lib \<Rightarrow> pyval list \<Rightarrow> 't slotval \<Rightarrow> error + 't slotval option" where
  "op_scale_torch L args t =
     (case args of
        [mode, scale_w, scale_h, antialias] \<Rightarrow>
          ebind (as_tensor AttributeError t) (\<lambda>tt.
          ebind (scale_size L tt scale_w scale_h) (\<lambda>(width, height).
          ebind (scale_samples L tt width height mode None
                   (Sc (SInt (if py_truthy antialias then 8 else 0)))) (\<lambda>out.
            Inr (Some (Tensor out)))))
      | _ \<Rightarrow> Inl (ValueError ''unpack''))"

definition op_unscale_torch ::
  "'t lib \<Rightarrow> pyval list \<Rightarrow> 't state \<Rightarrow> 't slotval \<Rightarrow> error + 't slotval option" where
  "op_unscale_torch L args st t =
     ebind (unscale_hsp L ''Can only use unscale_torch when HSP is set (output)'' st t) (\<lambda>r.
       case r of
         None \<Rightarrow> Inr None
       | Some hsp \<Rightarrow>
           (case args of
              [mode, antialias] \<Rightarrow>
                ebind (as_tensor AttributeError t) (\<lambda>tt.
                ebind (seq_index (shape L hsp) (-1)) (\<lambda>width.
                ebind (seq_index (shape L hsp) (-2)) (\<lambda>height.
                ebind (scale_samples L tt (int width) (int height) mode None
                         (Sc (SInt (if py_truthy antialias then 8 else 0)))) (\<lambda>out.
                  Inr (Some (Tensor out))))))
            | _ \<Rightarrow> Inl (ValueError ''unpack'')))"

definition op_scale :: "'t lib \<Rightarrow> pyval list \<Rightarrow> 't slotval \<Rightarrow> error + 't slotval option" where
  "op_scale L args t =
     (case args of
        [mode_w, mode_h, scale_w, scale_h, antialias_size] \<Rightarrow>
          ebind (as_tensor AttributeError t) (\<lambda>tt.
          ebind (scale_size L tt scale_w scale_h) (\<lambda>(width, height).
          ebind (scale_samples L tt width height mode_w (Some mode_h) antialias_size) (\<lambda>out.
            Inr (Some (Tensor out)))))
      | _ \<Rightarrow> Inl (ValueError ''unpack''))"

definition op_unscale ::
  "'t lib \<Rightarrow> pyval list \<Rightarrow> 't state \<Rightarrow> 't slotval \<Rightarrow> error + 't slotval option" where
  "op_unscale L args st t =
     ebind (unscale_hsp L ''Can only use unscale when HSP is set (output)'' st t) (\<lambda>r.
       case r of
         None \<Rightarrow> Inr None
       | Some hsp \<Rightarrow>
           (case args of
              [mode_w, mode_h, antialias_size] \<Rightarrow>
                ebind (as_tensor AttributeError t) (\<lambda>tt.
                ebind (seq_index (shape L hsp) (-1)) (\<lambda>width.
                ebind (seq_index (shape L hsp) (-2)) (\<lambda>height.
                ebind (scale_samples L tt (int width) (int height) mode_w (Some mode_h)
                         antialias_size) (\<lambda>out.
                  Inr (Some (Tensor out))))))
            | _ \<Rightarrow> Inl (ValueError ''unpack'')))"

text \<open>\<^verbatim>\<open>self.args[0]\<close>.\<close>

definition arg0 :: "pyval list \<Rightarrow> error + pyval" where
  "arg0 args = (case args of [] \<Rightarrow> Inl IndexError | a # _ \<Rightarrow> Inr a)"

definition op_flip :: "'t lib \<Rightarrow> pyval list \<Rightarrow> 't slotval \<Rightarrow> error + 't slotval option" where
  "op_flip L args t =
     ebind (arg0 args) (\<lambda>a.
     ebind (as_tensor TypeError t) (\<lambda>tt.
     ebind (torch_flip L tt (if eq_str a ''v'' then 2 else 3)) (\<lambda>out.
       Inr (Some (Tensor out)))))"

definition op_rot90 :: "'t lib \<Rightarrow> pyval list \<Rightarrow> 't slotval \<Rightarrow> error + 't slotval option" where
  "op_rot90 L args t =
     ebind (arg0 args) (\<lambda>a.
     ebind (as_tensor TypeError t) (\<lambda>tt.
     ebind (torch_rot90 L tt a) (\<lambda>out. Inr (Some (Tensor out)))))"

definition op_roll_channels ::
  "'t lib \<Rightarrow> pyval list \<Rightarrow> 't slotval \<Rightarrow> error + 't slotval option" where
  "op_roll_channels L args t =
     ebind (arg0 args) (\<lambda>a.
     ebind (as_tensor TypeError t) (\<lambda>tt.
     ebind (torch_roll L tt a (PList [Sc (SInt 1)])) (\<lambda>out. Inr (Some (Tensor out)))))"

text \<open>The direction of \<^verbatim>\<open>ROLL\<close> as a tuple of dimensions.\<close>

fun roll_dims :: "pyval \<Rightarrow> error + pyval" where
  "roll_dims (Sc (SStr s)) =
     (if s = ''h'' \<or> s = ''horizontal'' then Inr (PList [Sc (SInt 3)])
      else if s = ''v'' \<or> s = ''vertical'' then Inr (PList [Sc (SInt 2)])
      else if s = ''c'' \<or> s = ''channels'' then Inr (PList [Sc (SInt 1)])
      else Inl (ValueError ''Bad roll direction''))"
| "roll_dims (Sc (SInt i)) = Inr (PList [Sc (SInt i)])"
| "roll_dims (Sc (SBool b)) = Inr (PList [Sc (SBool b)])"
| "roll_dims d = Inr d"

definition roll_amount :: "'t lib \<Rightarrow> 't slotval \<Rightarrow> pyval \<Rightarrow> pyval \<Rightarrow> error + pyval" where
  "roll_amount L t dims amount =
     (case amount of
        Sc (SFloat a) \<Rightarrow>
          if a < 1 \<and> a > - 1
          then ebind (py_len dims) (\<lambda>n.
                 if n > 1
                 then Inl (ValueError ''Cannot use percentage based amount with multiple roll dimensions'')
                 else ebind (as_tensor AttributeError t) (\<lambda>tt.
                      ebind (py_getitem dims 0) (\<lambda>d0.
                      ebind (shape_index (shape L tt) d0) (\<lambda>sz.
                        Inr (Sc (SInt (py_trunc (real sz * a))))))))
          else Inr amount
      | _ \<Rightarrow> Inr amount)"

definition op_roll :: "'t lib \<Rightarrow> pyval list \<Rightarrow> 't slotval \<Rightarrow> error + 't slotval option" where
  "op_roll L args t =
     (case args of
        [dims, amount] \<Rightarrow>
          ebind (roll_dims dims) (\<lambda>dims'.
          ebind (roll_amount L t dims' amount) (\<lambda>amount'.
          ebind (as_tensor TypeError t) (\<lambda>tt.
          ebind (torch_roll L tt amount' dims') (\<lambda>out. Inr (Some (Tensor out))))))
      | _ \<Rightarrow> Inl (ValueError ''unpack''))"

definition op_ffilter :: "'t lib \<Rightarrow> pyval list \<Rightarrow> 't slotval \<Rightarrow> error + 't slotval option" where
  "op_ffilter L args t =
     (case args of
        [scale, filt, strength, threshold] \<Rightarrow>
          ebind (case filt of
                   Sc (SStr s) \<Rightarrow>
                     (case FILTER_PRESETS L s of None \<Rightarrow> Inl KeyError | Some f \<Rightarrow> Inr f)
                 | _ \<Rightarrow> Inr filt) (\<lambda>filt'.
          ebind (as_tensor TypeError t) (\<lambda>tt.
          ebind (ffilter L tt threshold scale filt' strength) (\<lambda>out.
            Inr (Some (Tensor out)))))
      | _ \<Rightarrow> Inl (ValueError ''unpack''))"

definition op_slice :: "'t lib \<Rightarrow> pyval list \<Rightarrow> 't slotval \<Rightarrow> error + 't slotval option" where
  "op_slice L args t =
     (case args of
        [scale, strength, blend, mode, use_hm] \<Rightarrow>
          ebind (as_tensor AttributeError t) (\<lambda>tt.
          ebind (seq_index (shape L tt) 1) (\<lambda>c.
          ebind (py_round_scaled c scale) (\<lambda>slice_size.
          ebind (slice_channels L tt slice_size) (\<lambda>sliced.
          ebind (if py_truthy use_hm
                 then ebind (hidden_mean L tt) (\<lambda>m. scale_by_mean L sliced strength m)
                 else tensor_mul L sliced strength) (\<lambda>result.
          ebind (if ne_one blend
                 then ebind (blending_mode L mode) (\<lambda>f. f sliced result blend)
                 else Inr result) (\<lambda>result'.
          ebind (set_channels L tt slice_size result') (\<lambda>out.
            Inr (Some (Tensor out)))))))))
      | _ \<Rightarrow> Inl (ValueError ''unpack''))"

definition op_multiply :: "'t lib \<Rightarrow> pyval list \<Rightarrow> 't slotval \<Rightarrow> error + 't slotval option" where
  "op_multiply L args t =
     ebind (arg0 args) (\<lambda>a.
     ebind (as_tensor TypeError t) (\<lambda>tt.
     ebind (tensor_mul L tt a) (\<lambda>out. Inr (Some (Tensor out)))))"

definition op_antialias :: "'t lib \<Rightarrow> pyval list \<Rightarrow> 't slotval \<Rightarrow> error + 't slotval option" where
  "op_antialias L args t =
     ebind (arg0 args) (\<lambda>a.
     ebind (as_tensor TypeError t) (\<lambda>tt.
     ebind (antialias_tensor L tt a) (\<lambda>out. Inr (Some (Tensor out)))))"

text \<open>
  \<^verbatim>\<open>DEBUG\<close> prints a summary of the state, which needs \<^verbatim>\<open>t.shape\<close>; the printed text
  is not part of the model.
\<close>

definition op_debug :: "'t lib \<Rightarrow> pyval list \<Rightarrow> 't slotval \<Rightarrow> error + 't slotval option" where
  "op_debug L args t = ebind (as_tensor AttributeError t) (\<lambda>tt. Inr (Some t))"

section \<open>Scratch slot names\<close>

text \<open>\<^verbatim>\<open>str(n)\<close>: the decimal digits of a natural number.\<close>

definition digit_char :: "nat \<Rightarrow> char" where
  "digit_char d = ''0123456789'' ! d"

function str_of_nat :: "nat \<Rightarrow> string" where
  "str_of_nat n = (if n < 10 then [digit_char n] else str_of_nat (n div 10) @ [digit_char (n mod 10)])"
  by pat_completeness auto
termination
  by (relation "measure id") auto

declare str_of_nat.simps [simp del]

text \<open>\<^verbatim>\<open>f"temp{Operation.IDX}"\<close>.\<close>

definition tempname :: "nat \<Rightarrow> string" where
  "tempname n = ''temp'' @ str_of_nat n"

section \<open>The mask of \<^verbatim>\<open>MASK_EXAMPLE_OP\<close>\<close>

text \<open>\<^verbatim>\<open>v[2:]\<close>; a dict cannot be sliced.\<close>

fun py_drop2 :: "pyval \<Rightarrow> error + pyval" where
  "py_drop2 (PList xs) = Inr (PList (drop 2 xs))"
| "py_drop2 (Sc (SStr s)) = Inr (Sc (SStr (drop 2 s)))"
| "py_drop2 _ = Inl TypeError"

text \<open>\<^verbatim>\<open>(x,) * n\<close>: \<open>n\<close> must be an integer; none or fewer give the empty tuple.\<close>

fun py_repeat :: "'a \<Rightarrow> pyval \<Rightarrow> error + 'a list" where
  "py_repeat x (Sc (SInt n)) = Inr (replicate (nat n) x)"
| "py_repeat x (Sc (SBool b)) = Inr (if b then [x] else [])"
| "py_repeat x _ = Inl TypeError"

text \<open>The inner loop \<^verbatim>\<open>for col in rowdef\<close>, with \<open>row\<close> the list built so far.\<close>

fun mask_cols :: "pyval list \<Rightarrow> pyval list \<Rightarrow> error + pyval list" where
  "mask_cols row [] = Inr row"
| "mask_cols row (PList c # cols) =
     ebind (seq_index c 1) (\<lambda>v.
     ebind (seq_index c 0) (\<lambda>n.
     ebind (py_repeat v n) (\<lambda>vs. mask_cols (row @ vs) cols)))"
| "mask_cols row (col # cols) = mask_cols (row @ [col]) cols"

text \<open>One iteration of the outer loop: the rows that \<^verbatim>\<open>rowdef\<close> adds to the mask.\<close>

definition mask_row :: "'t lib \<Rightarrow> pyval \<Rightarrow> error + pyval list list" where
  "mask_row L rowdef =
     ebind (if py_truthy rowdef
            then ebind (py_getitem rowdef 0) (\<lambda>x.
                   if eq_str x ''rep''
                   then ebind (py_getitem rowdef 1) (\<lambda>r.
                        ebind (py_int L r) (\<lambda>repeats.
                        ebind (py_drop2 rowdef) (\<lambda>rest. Inr (repeats, rest))))
                   else Inr (1, rowdef))
            else Inr (1, rowdef)) (\<lambda>(repeats, rowdef').
     ebind (py_iter rowdef') (\<lambda>cols.
     ebind (mask_cols [] cols) (\<lambda>row. Inr (replicate (nat repeats) row))))"

fun mask_rows :: "'t lib \<Rightarrow> (error + pyval) list \<Rightarrow> error + pyval list list" where
  "mask_rows L [] = Inr []"
| "mask_rows L (r # rs) =
     ebind r (\<lambda>rowdef.
     ebind (mask_row L rowdef) (\<lambda>rows.
     ebind (mask_rows L rs) (\<lambda>more. Inr (rows @ more))))"

text \<open>\<^verbatim>\<open>[v[i] for i in range(len(v))]\<close>, each read with the error it may raise.\<close>

definition py_items :: "pyval \<Rightarrow> error + (error + pyval) list" where
  "py_items v = ebind (py_len v) (\<lambda>n. Inr (map (\<lambda>i. py_getitem v (int i)) [0 ..< n]))"

text \<open>
  The mask, from the mask example to the tensor that is broadcast to the shape of \<open>t\<close>.
  The source stores the compiled example in \<^verbatim>\<open>self.args\<close> and reuses it at the next
  evaluation of the same operation object; the model compiles it at every evaluation,
  which gives the same rows.
\<close>

definition example_mask :: "'t lib \<Rightarrow> pyval \<Rightarrow> pyval \<Rightarrow> pyval \<Rightarrow> 't slotval \<Rightarrow> error + 't" where
  "example_mask L scale_mode antialias_size maskdef t =
     ebind (py_items maskdef) (\<lambda>rowdefs.
     ebind (mask_rows L rowdefs) (\<lambda>rows.
     ebind (as_tensor AttributeError t) (\<lambda>tt.
     ebind (mask_tensor L rows tt) (\<lambda>m.
     ebind (seq_index (shape L tt) (-1)) (\<lambda>w.
     ebind (seq_index (shape L tt) (-2)) (\<lambda>h.
     ebind (scale_samples L m (int w) (int h) scale_mode None antialias_size) (\<lambda>m'.
       broadcast_to L m' (shape L tt))))))))"

section \<open>Operations with nested operations\<close>

text \<open>
  \<^verbatim>\<open>if subops and isinstance(subops[0], str): subops = (subops,)\<close>. The result says
  whether \<^verbatim>\<open>subops\<close> was wrapped in a tuple, and gives the new value.
\<close>

definition wrap_subops :: "pyval \<Rightarrow> error + bool \<times> pyval" where
  "wrap_subops subops =
     (if py_truthy subops
      then ebind (py_getitem subops 0) (\<lambda>x.
             if is_str x then Inr (True, PList [subops]) else Inr (False, subops))
      else Inr (False, subops))"

text \<open>
  The lines between the wrapping and the loop: the scratch name from \<^verbatim>\<open>Operation.IDX\<close>,
  the increment, the read of \<^verbatim>\<open>state["target"]\<close> and the clone of \<open>t\<close> into the scratch
  slot. The result is the scratch name, the old target and the new state.
\<close>

definition scratch_begin ::
  "'t state \<Rightarrow> 't slotval \<Rightarrow> error + string \<times> 't slotval \<times> 't state" where
  "scratch_begin st t =
     (let name = tempname (IDX st); st1 = st\<lparr>IDX := IDX st + 1\<rparr>
      in ebind (get_slot st1 ''target'') (\<lambda>old_target.
         ebind (as_tensor AttributeError t) (\<lambda>tt.
           Inr (name, old_target, set_slot st1 name (Tensor tt)))))"

text \<open>The bound of the termination argument: the largest item of the loop.\<close>

fun items_bound :: "(error + pyval) list \<Rightarrow> nat" where
  "items_bound [] = 0"
| "items_bound (Inl e # xs) = items_bound xs"
| "items_bound (Inr v # xs) = max (size v) (items_bound xs)"

lemma items_bound_le:
  "(\<And>v. Inr v \<in> set xs \<Longrightarrow> size v \<le> n) \<Longrightarrow> items_bound xs \<le> n"
proof (induction xs)
  case Nil
  then show ?case by simp
next
  case (Cons x xs)
  then show ?case by (cases x) auto
qed

lemma seq_index_mem: "seq_index xs i = Inr x \<Longrightarrow> x \<in> set xs"
  by (auto simp: seq_index_def Let_def split: if_splits)

lemma size_list_mem: "x \<in> set xs \<Longrightarrow> size x < size (PList xs)"
  by (induction xs) auto

lemma py_getitem_size: "py_getitem v i = Inr x \<Longrightarrow> size x \<le> size v"
proof (cases v)
  case (Sc s)
  then show "py_getitem v i = Inr x \<Longrightarrow> size x \<le> size v"
    by (cases s) (auto split: sum.splits)
next
  case (PList xs)
  then show "py_getitem v i = Inr x \<Longrightarrow> size x \<le> size v"
    using size_list_mem [of x xs] by (auto dest!: seq_index_mem)
next
  case (PDict kvs)
  then show "py_getitem v i = Inr x \<Longrightarrow> size x \<le> size v"
    using dict_find_size [of kvs "SInt i" x] by (auto split: option.splits)
qed

lemma py_items_bound: "py_items v = Inr xs \<Longrightarrow> items_bound xs \<le> size v"
proof -
  assume a: "py_items v = Inr xs"
  show "items_bound xs \<le> size v"
  proof (rule items_bound_le)
    fix x assume "Inr x \<in> set xs"
    with a obtain i where "py_getitem v i = Inr x"
      by (auto simp: py_items_def ebind_def split: sum.splits)
    then show "size x \<le> size v" by (rule py_getitem_size)
  qed
qed

lemma wrap_subops_bound:
  assumes "wrap_subops s = Inr ws" and "py_items (snd ws) = Inr xs"
  shows "items_bound xs \<le> size s"
proof (cases "fst ws")
  case False
  with assms(1) have "snd ws = s"
    by (auto simp: wrap_subops_def ebind_def split: if_splits sum.splits)
  with assms(2) show ?thesis by (simp add: py_items_bound)
next
  case True
  with assms(1) have "snd ws = PList [s]"
    by (auto simp: wrap_subops_def ebind_def split: if_splits sum.splits)
  with assms(2) have "xs = [Inr s]"
    by (simp add: py_items_def seq_index_def)
  then show ?thesis by simp
qed

text \<open>
  \<^verbatim>\<open>Operation.eval\<close>. \<open>eval_op L typ args st\<close> evaluates the operation with
  \<^verbatim>\<open>self.typ = typ\<close> and \<^verbatim>\<open>self.args = args\<close>. \<open>eval_subops\<close> is the loop
  \<^verbatim>\<open>for idx in range(len(subops))\<close> of the two blend cases over the items
  \<^verbatim>\<open>subops[idx]\<close>: a dict is compiled by \<^verbatim>\<open>Rule.from_dict\<close>, whose result is a tuple, so
  that the store into a wrapped \<^verbatim>\<open>subops\<close> raises \<^verbatim>\<open>TypeError\<close> and the call of
  \<^verbatim>\<open>eval\<close> on the tuple raises \<^verbatim>\<open>AttributeError\<close>; a list is compiled to an
  \<^verbatim>\<open>Operation\<close> and evaluated with the scratch slot as target; any other value has no
  \<^verbatim>\<open>eval\<close>.
\<close>

function eval_op :: "'t lib \<Rightarrow> OpType \<Rightarrow> pyval list \<Rightarrow> 't state \<Rightarrow> error + 't state"
and eval_subops ::
  "'t lib \<Rightarrow> bool \<Rightarrow> (error + pyval) list \<Rightarrow> string \<Rightarrow> 't state \<Rightarrow> error + 't state"
where
  "eval_op L SCALE_TORCH args st =
     with_target st (\<lambda>t. ebind (op_scale_torch L args t) (\<lambda>r.
       case r of None \<Rightarrow> Inr st | Some out \<Rightarrow> assign_target st out))"
| "eval_op L UNSCALE_TORCH args st =
     with_target st (\<lambda>t. ebind (op_unscale_torch L args st t) (\<lambda>r.
       case r of None \<Rightarrow> Inr st | Some out \<Rightarrow> assign_target st out))"
| "eval_op L SCALE args st =
     with_target st (\<lambda>t. ebind (op_scale L args t) (\<lambda>r.
       case r of None \<Rightarrow> Inr st | Some out \<Rightarrow> assign_target st out))"
| "eval_op L UNSCALE args st =
     with_target st (\<lambda>t. ebind (op_unscale L args st t) (\<lambda>r.
       case r of None \<Rightarrow> Inr st | Some out \<Rightarrow> assign_target st out))"
| "eval_op L FLIP args st =
     with_target st (\<lambda>t. ebind (op_flip L args t) (\<lambda>r.
       case r of None \<Rightarrow> Inr st | Some out \<Rightarrow> assign_target st out))"
| "eval_op L ROT90 args st =
     with_target st (\<lambda>t. ebind (op_rot90 L args t) (\<lambda>r.
       case r of None \<Rightarrow> Inr st | Some out \<Rightarrow> assign_target st out))"
| "eval_op L ROLL_CHANNELS args st =
     with_target st (\<lambda>t. ebind (op_roll_channels L args t) (\<lambda>r.
       case r of None \<Rightarrow> Inr st | Some out \<Rightarrow> assign_target st out))"
| "eval_op L ROLL args st =
     with_target st (\<lambda>t. ebind (op_roll L args t) (\<lambda>r.
       case r of None \<Rightarrow> Inr st | Some out \<Rightarrow> assign_target st out))"
| "eval_op L TARGET_SKIP args st =
     with_target st (\<lambda>t.
       if slots st ''hsp'' = None \<or> slots st ''hsp'' = Some (Val SNone)
       then (if slots st ''target'' = Some (Val (SStr ''hsp''))
             then Inr (set_slot st ''target'' (Val (SStr ''h'')))
             else Inr st)
       else ebind (arg0 args) (\<lambda>a.
              Inr (set_slot st ''target''
                     (Val (SStr (if a = Sc (SBool True) then ''hsp'' else ''h''))))))"
| "eval_op L FFILTER args st =
     with_target st (\<lambda>t. ebind (op_ffilter L args t) (\<lambda>r.
       case r of None \<Rightarrow> Inr st | Some out \<Rightarrow> assign_target st out))"
| "eval_op L SLICE args st =
     with_target st (\<lambda>t. ebind (op_slice L args t) (\<lambda>r.
       case r of None \<Rightarrow> Inr st | Some out \<Rightarrow> assign_target st out))"
| "eval_op L MULTIPLY args st =
     with_target st (\<lambda>t. ebind (op_multiply L args t) (\<lambda>r.
       case r of None \<Rightarrow> Inr st | Some out \<Rightarrow> assign_target st out))"
| "eval_op L BLEND_OP args st =
     with_target st (\<lambda>t.
       case args of
         [blend, mode, subops] \<Rightarrow>
           ebind (wrap_subops subops) (\<lambda>ws.
           ebind (scratch_begin st t) (\<lambda>sb.
           ebind (py_items (snd ws)) (\<lambda>items.
           ebind (eval_subops L (fst ws) items (fst sb) (snd (snd sb))) (\<lambda>st'.
           ebind (blending_mode L mode) (\<lambda>f.
           ebind (as_tensor TypeError t) (\<lambda>tt.
           ebind (get_slot st' (fst sb)) (\<lambda>tmp.
           ebind (as_tensor TypeError tmp) (\<lambda>tmp'.
           ebind (f tt tmp' blend) (\<lambda>out.
             assign_target (del_slot (set_slot st' ''target'' (fst (snd sb))) (fst sb))
               (Tensor out))))))))))
       | _ \<Rightarrow> Inl (ValueError ''unpack''))"
| "eval_op L MASK_EXAMPLE_OP args st =
     with_target st (\<lambda>t.
       case args of
         [scale_mode, antialias_size, maskdef, subops] \<Rightarrow>
           ebind (example_mask L scale_mode antialias_size maskdef t) (\<lambda>mask.
           ebind (wrap_subops subops) (\<lambda>ws.
           ebind (scratch_begin st t) (\<lambda>sb.
           ebind (py_items (snd ws)) (\<lambda>items.
           ebind (eval_subops L (fst ws) items (fst sb) (snd (snd sb))) (\<lambda>st'.
           ebind (get_slot st' (fst sb)) (\<lambda>tmp.
           ebind (as_tensor TypeError tmp) (\<lambda>tmp'.
           ebind (as_tensor TypeError t) (\<lambda>tt.
           ebind (mask_mix L tmp' tt mask) (\<lambda>out.
             assign_target (del_slot (set_slot st' ''target'' (fst (snd sb))) (fst sb))
               (Tensor out))))))))))
       | _ \<Rightarrow> Inl (ValueError ''unpack''))"
| "eval_op L ANTIALIAS args st =
     with_target st (\<lambda>t. ebind (op_antialias L args t) (\<lambda>r.
       case r of None \<Rightarrow> Inr st | Some out \<Rightarrow> assign_target st out))"
| "eval_op L NOISE args st =
     with_target st (\<lambda>t.
       ebind (as_tensor TypeError t) (\<lambda>tt.
       ebind (get_slot st ''sigma'') (\<lambda>sigma.
       ebind (get_slot st ''sigma_next'') (\<lambda>sigma_next.
       ebind (py_sub sigma sigma_next) (\<lambda>step_scale.
       ebind (arg0 args) (\<lambda>a.
       ebind (add_noise L tt (fst (randn_like L (rng st) tt)) step_scale a) (\<lambda>out.
         assign_target (st\<lparr>rng := snd (randn_like L (rng st) tt)\<rparr>) (Tensor out))))))))"
| "eval_op L DEBUG args st =
     with_target st (\<lambda>t. ebind (op_debug L args t) (\<lambda>r.
       case r of None \<Rightarrow> Inr st | Some out \<Rightarrow> assign_target st out))"
| "eval_subops L wrapped [] name st = Inr st"
| "eval_subops L wrapped (Inl e # items) name st = Inl e"
| "eval_subops L wrapped (Inr (PDict kvs) # items) name st =
     ebind (Rule_from_dict (PDict kvs)) (\<lambda>rules.
       Inl (if wrapped then TypeError else AttributeError))"
| "eval_subops L wrapped (Inr (PList []) # items) name st = Inl IndexError"
| "eval_subops L wrapped (Inr (PList (x # xs)) # items) name st =
     ebind (enum_of OpType_names x) (\<lambda>t.
     ebind (eval_op L t xs (set_slot st ''target'' (Val (SStr name)))) (\<lambda>st'.
       eval_subops L wrapped items name st'))"
| "eval_subops L wrapped (Inr (Sc v) # items) name st = Inl AttributeError"
  by pat_completeness auto
termination
  apply (relation "inv_image (less_than <*lex*> less_than)
        (\<lambda>x. case x of
           Inl (L, t, args, st) \<Rightarrow> (size (PList args), 0::nat)
         | Inr (L, w, items, name, st) \<Rightarrow> (items_bound items, length items))")
      apply (intro wf_inv_image wf_lex_prod wf_less_than)
     apply (auto dest: wrap_subops_bound simp: less_Suc_eq_le)
  done

section \<open>Rules\<close>

text \<open>\<^verbatim>\<open>for o in self.ops: o.eval(state)\<close>.\<close>

fun Operation_eval :: "'t lib \<Rightarrow> Operation \<Rightarrow> 't state \<Rightarrow> error + 't state" where
  "Operation_eval L (Operation t args) st = eval_op L t args st"

fun Operations_eval :: "'t lib \<Rightarrow> Operation list \<Rightarrow> 't state \<Rightarrow> error + 't state" where
  "Operations_eval L [] st = Inr st"
| "Operations_eval L (o1 # os) st =
     (case Operation_eval L o1 st of Inl e \<Rightarrow> Inl e | Inr st' \<Rightarrow> Operations_eval L os st')"

text \<open>
  \<^verbatim>\<open>Rule.eval\<close>; \<open>Rules_eval\<close> is the loop \<^verbatim>\<open>for r in rs: r.eval(state)\<close>, which is also
  the body of \<^verbatim>\<open>RuleGroup.eval\<close>.
\<close>

fun Rule_eval :: "'t lib \<Rightarrow> Rule \<Rightarrow> 't state \<Rightarrow> error + 't state"
and Rules_eval :: "'t lib \<Rightarrow> Rule list \<Rightarrow> 't state \<Rightarrow> error + 't state"
where
  "Rule_eval L (Rule c os m n) st =
     (case ConditionGroup_test c st of
        Inl e \<Rightarrow> Inl e
      | Inr b \<Rightarrow>
          if \<not> b then Rules_eval L n st
          else (case Operations_eval L os (set_slot st ''target'' (Val (SStr ''h''))) of
                  Inl e \<Rightarrow> Inl e
                | Inr st' \<Rightarrow> Rules_eval L m st'))"
| "Rules_eval L [] st = Inr st"
| "Rules_eval L (r # rs) st =
     (case Rule_eval L r st of Inl e \<Rightarrow> Inl e | Inr st' \<Rightarrow> Rules_eval L rs st')"

definition RuleGroup_eval :: "'t lib \<Rightarrow> Rule list \<Rightarrow> 't state \<Rightarrow> error + 't state" where
  "RuleGroup_eval L rules st = Rules_eval L rules st"

section \<open>Percent and step from sigma\<close>

text \<open>
  \<^verbatim>\<open>bisect.bisect_right\<close> of the standard library: the binary search
  \<^verbatim>\<open>while lo < hi: mid = (lo + hi) // 2; if x < a[mid]: hi = mid else: lo = mid + 1\<close>.
\<close>

function bisect_loop :: "real list \<Rightarrow> real \<Rightarrow> nat \<Rightarrow> nat \<Rightarrow> nat" where
  "bisect_loop a x lo hi =
     (if lo < hi
      then (let mid = (lo + hi) div 2
            in if x < a ! mid then bisect_loop a x lo mid else bisect_loop a x (mid + 1) hi)
      else lo)"
  by pat_completeness auto
termination
  by (relation "measure (\<lambda>(a, x, lo, hi). hi - lo)") auto

declare bisect_loop.simps [simp del]

definition bisect_right :: "real list \<Rightarrow> real \<Rightarrow> nat" where
  "bisect_right a x = bisect_loop a x 0 (length a)"

definition pct_steps :: nat where
  "pct_steps = 400"

definition pct_incr :: real where
  "pct_incr = 1 / real pct_steps"

text \<open>
  The table \<^verbatim>\<open>sig2pct\<close>, for the host's function \<^verbatim>\<open>percent_to_sigma\<close>: its values at
  \<open>x / pct_steps\<close> for \<open>x\<close> from \<open>pct_steps\<close> down to 0.
\<close>

definition sig2pct :: "(real \<Rightarrow> real) \<Rightarrow> real list" where
  "sig2pct percent_to_sigma =
     map (\<lambda>x. percent_to_sigma (real x / real pct_steps)) (rev [0 ..< pct_steps + 1])"

text \<open>
  The options that the host passes to a patch: the tensor \<^verbatim>\<open>"sigmas"\<close> as the list of
  its entries, and the pair \<^verbatim>\<open>"block"\<close>.
\<close>

record topts =
  sigmas :: "real list"
  block :: "string \<times> int"

text \<open>\<^verbatim>\<open>get_pct\<close>, on the tensor \<^verbatim>\<open>topts["sigmas"]\<close>.\<close>

definition get_pct :: "(real \<Rightarrow> real) \<Rightarrow> real list \<Rightarrow> error + real option" where
  "get_pct percent_to_sigma sigs =
     (case sigs of
        [] \<Rightarrow> Inl IndexError
      | sigma # _ \<Rightarrow>
          (let idx = bisect_right (sig2pct percent_to_sigma) sigma
           in if idx \<ge> length (sig2pct percent_to_sigma) then Inr None
              else Inr (Some (pct_incr * real (pct_steps - idx)))))"

text \<open>
  \<^verbatim>\<open>torch.min(v, 0)\<close> of a one-dimensional tensor: the least value and the index of its
  first occurrence.
\<close>

fun torch_min :: "real list \<Rightarrow> error + real \<times> nat" where
  "torch_min [] = Inl IndexError"
| "torch_min [x] = Inr (x, 0)"
| "torch_min (x # y # ys) =
     ebind (torch_min (y # ys)) (\<lambda>(m, i). if x \<le> m then Inr (x, 0) else Inr (m, Suc i))"

text \<open>
  \<^verbatim>\<open>set_state_step\<close>. Without a schedule the first statement reads the name
  \<^verbatim>\<open>Condtype\<close>, which is bound nowhere in the module (the enum is \<^verbatim>\<open>CondType\<close>), before
  any key is stored. With a schedule, \<^verbatim>\<open>torch.min\<close> raises on the empty tensor
  \<^verbatim>\<open>sigmas_opt[:-1]\<close>.
\<close>

definition set_state_step :: "real list option \<Rightarrow> 't state \<Rightarrow> real \<Rightarrow> error + 't state" where
  "set_state_step sigmas_opt st sigma =
     (case sigmas_opt of
        None \<Rightarrow> Inl (NameError ''Condtype'')
      | Some sched \<Rightarrow>
          ebind (torch_min (map (\<lambda>s. \<bar>s - sigma\<bar>) (butlast sched))) (\<lambda>(sigmadiff, idx).
            Inr (st\<lparr>cond := (cond st)
                        (STEP \<mapsto> SInt (int idx + 1),
                         STEP_EXACT \<mapsto> SInt (if sigmadiff > 15 / 10000000 then - 1
                                               else int idx + 1)),
                      slots := (slots st)
                        (''sigma'' \<mapsto> Val (SFloat (sched ! idx)),
                         ''sigma_next'' \<mapsto> Val (SFloat (sched ! (idx + 1))))\<rparr>)))"

section \<open>The patches\<close>

definition stages :: "nat list" where
  "stages = [1280, 640, 320]"

text \<open>\<^verbatim>\<open>xs.index(c)\<close> where \<open>c\<close> occurs in \<open>xs\<close>: the index of the first occurrence.\<close>

fun list_index :: "nat list \<Rightarrow> nat \<Rightarrow> nat" where
  "list_index [] c = 0"
| "list_index (x # xs) c = (if x = c then 0 else Suc (list_index xs c))"

text \<open>\<^verbatim>\<open>stages.index(c) + 1 if c in stages else -1\<close>.\<close>

definition stage_of :: "nat \<Rightarrow> int" where
  "stage_of c = (if c \<in> set stages then int (list_index stages c) + 1 else - 1)"

text \<open>
  \<^verbatim>\<open>make_state\<close>. \<open>idx\<close> and \<open>g\<close> are the values of \<^verbatim>\<open>Operation.IDX\<close> and of the random
  generator when the patch is called. The result \<open>None\<close> is the \<^verbatim>\<open>None\<close> of the source.
\<close>

definition make_state ::
  "'t lib \<Rightarrow> (real \<Rightarrow> real) \<Rightarrow> real list option \<Rightarrow> nat \<Rightarrow> nat \<Rightarrow>
   string \<Rightarrow> topts \<Rightarrow> 't \<Rightarrow> 't option \<Rightarrow> error + 't state option" where
  "make_state L percent_to_sigma sigmas_opt idx g typ to h hsp =
     ebind (get_pct percent_to_sigma (sigmas to)) (\<lambda>pct.
       case pct of
         None \<Rightarrow> Inr None
       | Some p \<Rightarrow>
           ebind (seq_index (shape L h) 1) (\<lambda>c.
           ebind (set_state_step sigmas_opt
                    \<lparr>cond = [TYPE' \<mapsto> SStr typ, PERCENT \<mapsto> SFloat p,
                             BLOCK \<mapsto> SInt (snd (block to)), STAGE \<mapsto> SInt (stage_of c)],
                     slots = [''h'' \<mapsto> Tensor h,
                              ''hsp'' \<mapsto> (case hsp of None \<Rightarrow> Val SNone | Some x \<Rightarrow> Tensor x),
                              ''target'' \<mapsto> Val (SStr ''h'')],
                     IDX = idx, rng = g\<rparr>
                    (Max (set (sigmas to)))) (\<lambda>st. Inr (Some st))))"

text \<open>What a patch returns: one value, the pair of \<^verbatim>\<open>output_block_patch\<close>, or \<^verbatim>\<open>None\<close>.\<close>

datatype 't ret = RetValue "'t slotval" | RetPair "'t slotval" "'t slotval" | RetNone

definition block_patch ::
  "'t lib \<Rightarrow> (real \<Rightarrow> real) \<Rightarrow> real list option \<Rightarrow> Rule list \<Rightarrow> nat \<Rightarrow> nat \<Rightarrow>
   string \<Rightarrow> 't \<Rightarrow> topts \<Rightarrow> error + 't ret" where
  "block_patch L percent_to_sigma sigmas_opt rules idx g typ h to =
     ebind (make_state L percent_to_sigma sigmas_opt idx g typ to h None) (\<lambda>state.
       case state of
         None \<Rightarrow> Inr (RetValue (Tensor h))
       | Some st \<Rightarrow>
           ebind (RuleGroup_eval L rules st) (\<lambda>st'.
           ebind (get_slot st' ''h'') (\<lambda>v. Inr (RetValue v))))"

definition output_block_patch ::
  "'t lib \<Rightarrow> (real \<Rightarrow> real) \<Rightarrow> real list option \<Rightarrow> Rule list \<Rightarrow> nat \<Rightarrow> nat \<Rightarrow>
   't \<Rightarrow> 't \<Rightarrow> topts \<Rightarrow> error + 't ret" where
  "output_block_patch L percent_to_sigma sigmas_opt rules idx g h hsp transformer_options =
     ebind (make_state L percent_to_sigma sigmas_opt idx g ''output'' transformer_options h
              (Some hsp)) (\<lambda>state.
       case state of
         None \<Rightarrow> Inr (RetValue (Tensor h))
       | Some st \<Rightarrow>
           ebind (RuleGroup_eval L rules st) (\<lambda>st'.
           ebind (get_slot st' ''h'') (\<lambda>v.
           ebind (get_slot st' ''hsp'') (\<lambda>w. Inr (RetPair v w)))))"

text \<open>
  \<^verbatim>\<open>post_cfg_patch\<close>, on the entries \<^verbatim>\<open>args["sigma"]\<close> and \<^verbatim>\<open>args["denoised"]\<close>.
\<close>

definition post_cfg_patch ::
  "'t lib \<Rightarrow> (real \<Rightarrow> real) \<Rightarrow> real list option \<Rightarrow> Rule list \<Rightarrow> nat \<Rightarrow> nat \<Rightarrow>
   real list \<Rightarrow> 't \<Rightarrow> error + 't ret" where
  "post_cfg_patch L percent_to_sigma sigmas_opt rules idx g sigma denoised =
     ebind (get_pct percent_to_sigma sigma) (\<lambda>pct.
       case pct of
         None \<Rightarrow> Inr RetNone
       | Some p \<Rightarrow>
           ebind (set_state_step sigmas_opt
                    \<lparr>cond = [TYPE' \<mapsto> SStr ''post_cfg'', PERCENT \<mapsto> SFloat p,
                             BLOCK \<mapsto> SInt (- 1), STAGE \<mapsto> SInt (- 1)],
                     slots = [''h'' \<mapsto> Tensor denoised, ''hsp'' \<mapsto> Val SNone,
                              ''target'' \<mapsto> Val (SStr ''h'')],
                     IDX = idx, rng = g\<rparr>
                    (Max (set sigma))) (\<lambda>st.
           ebind (RuleGroup_eval L rules st) (\<lambda>st'.
           ebind (get_slot st' ''h'') (\<lambda>v. Inr (RetValue v)))))"

section \<open>The hypothesis of the non-matching rule group\<close>

text \<open>
  \<open>Rules_no_match rs st\<close>: every rule that the evaluation of \<open>rs\<close> in \<open>st\<close> reaches has a
  condition group that tests false. The rules reached are the rules of \<open>rs\<close> and, below
  a rule that does not match, the rules of its \<^verbatim>\<open>nomatched\<close> list.
\<close>

fun Rule_no_match :: "Rule \<Rightarrow> 't state \<Rightarrow> bool"
and Rules_no_match :: "Rule list \<Rightarrow> 't state \<Rightarrow> bool"
where
  "Rule_no_match (Rule c os m n) st = (ConditionGroup_test c st = Inr False \<and> Rules_no_match n st)"
| "Rules_no_match [] st = True"
| "Rules_no_match (r # rs) st = (Rule_no_match r st \<and> Rules_no_match rs st)"

section \<open>Scratch slots that are free\<close>

text \<open>
  \<open>scratch_fresh st\<close>: no scratch name that \<^verbatim>\<open>Operation.IDX\<close> can still produce
  is a key of the state. The states that \<^verbatim>\<open>make_state\<close> builds have no scratch name at
  all, and every operation and rule keeps the property.
\<close>

definition scratch_fresh :: "'t state \<Rightarrow> bool" where
  "scratch_fresh st \<longleftrightarrow> (\<forall>n \<ge> IDX st. tempname n \<notin> dom (slots st))"

text \<open>
  \<open>frame st st' k\<close>: from \<open>st\<close> to \<open>st'\<close> the keys of the dict are the same, and no
  binding other than that of \<open>k\<close> has changed.
\<close>

definition frame :: "'t state \<Rightarrow> 't state \<Rightarrow> string \<Rightarrow> bool" where
  "frame st st' k \<longleftrightarrow>
     dom (slots st') = dom (slots st) \<and> cond st' = cond st
     \<and> (\<forall>x. x \<noteq> k \<longrightarrow> slots st' x = slots st x)
     \<and> IDX st \<le> IDX st' \<and> scratch_fresh st'"

section \<open>The evaluation of a rule group with the visited rules\<close>







section \<open>Concrete inputs\<close>

text \<open>
  A tensor library for the examples: a tensor is its shape, \<^verbatim>\<open>scale_samples\<close> replaces
  the last two dimensions by the requested height and width, and the other functions
  return a tensor of the shape of their first argument.
\<close>

definition example_lib :: "nat list lib" where
  "example_lib =
     \<lparr>shape = (\<lambda>t. t),
      scale_samples = (\<lambda>t w h mode mode_h aa. Inr (butlast (butlast t) @ [nat h, nat w])),
      torch_flip = (\<lambda>t d. Inr t),
      torch_rot90 = (\<lambda>t k. Inr t),
      torch_roll = (\<lambda>t a d. Inr t),
      FILTER_PRESETS = Map.empty,
      ffilter = (\<lambda>t th sc f s. Inr t),
      BLENDING_MODES = [''lerp'' \<mapsto> (\<lambda>a b x. Inr b)],
      antialias_tensor = (\<lambda>t s. Inr t),
      randn_like = (\<lambda>g t. (t, Suc g)),
      tensor_mul = (\<lambda>t x. Inr t),
      slice_channels = (\<lambda>t n. Inr t),
      set_channels = (\<lambda>t n r. Inr t),
      hidden_mean = (\<lambda>t. Inr t),
      scale_by_mean = (\<lambda>s x m. Inr s),
      mask_tensor = (\<lambda>rows t. Inr [length rows]),
      broadcast_to = (\<lambda>m sh. Inr sh),
      mask_mix = (\<lambda>a t m. Inr a),
      add_noise = (\<lambda>t n s x. Inr t),
      int_of_str = (\<lambda>s. Inl (ValueError ''int''))\<rparr>"

definition empty_state :: "nat list state" where
  "empty_state = \<lparr>cond = Map.empty, slots = Map.empty, IDX = 0, rng = 0\<rparr>"

text \<open>The state of an output block at step 4 of a schedule, with \<open>h\<close> and \<open>hsp\<close>.\<close>

definition output_state :: "nat list \<Rightarrow> nat list slotval \<Rightarrow> nat list state" where
  "output_state h hsp =
     \<lparr>cond = [TYPE' \<mapsto> SStr ''output'', PERCENT \<mapsto> SFloat (1 / 2), BLOCK \<mapsto> SInt 7,
              STAGE \<mapsto> SInt (- 1), STEP \<mapsto> SInt 4, STEP_EXACT \<mapsto> SInt 4],
      slots = [''h'' \<mapsto> Tensor h, ''hsp'' \<mapsto> hsp, ''target'' \<mapsto> Val (SStr ''h''),
               ''sigma'' \<mapsto> Val (SFloat 2), ''sigma_next'' \<mapsto> Val (SFloat 1)],
      IDX = 0, rng = 0\<rparr>"

text \<open>
  A state inside the loop of a \<^verbatim>\<open>BLEND_OP\<close> at an input block: the target is the
  scratch slot \<^verbatim>\<open>temp0\<close> and there is no companion tensor.
\<close>

definition scratch_state :: "nat list state" where
  "scratch_state =
     \<lparr>cond = Map.empty,
      slots = [''h'' \<mapsto> Tensor [1, 4, 8, 8], ''hsp'' \<mapsto> Val SNone,
               ''temp0'' \<mapsto> Tensor [1, 4, 8, 8], ''target'' \<mapsto> Val (SStr ''temp0'')],
      IDX = 1, rng = 0\<rparr>"

text \<open>A blend whose nested operations are another blend and a target redirect.\<close>

definition nested_blend :: Operation where
  "nested_blend =
     Operation BLEND_OP
       [Sc (SFloat (1 / 2)), Sc (SStr ''lerp''),
        PList [PList [Sc (SStr ''blend_op''), Sc (SInt 1), Sc (SStr ''lerp''),
                      PList [Sc (SStr ''multiply''), Sc (SInt 2)]],
               PList [Sc (SStr ''target_skip''), Sc (SBool True)]]]"


section \<open>Leaf comparisons (C5)\<close>

lemma py_all_True_iff:
  "py_all f vs = Inr True \<longleftrightarrow> (\<forall>v \<in> set vs. f v = Inr True)"
  by (induction vs) (auto split: sum.splits)

text \<open>
  Claim C5. A relational comparison whose field is present in the state returns true
  exactly when the operator holds between the field's value and every one of the
  comparison values. For \<^verbatim>\<open>GT\<close> with the values 3 and 5 that is: the field is a number
  greater than 5.
\<close>

theorem Compare_test_leaf_and_across_values:
  assumes "opfn typ = Some f" and "cond st field = Some fieldval"
  shows "(Compare_test (CompareLeaf typ field vals) st = Inr True
            \<longleftrightarrow> (\<forall>v \<in> set vals. f fieldval v = Inr True))
         \<and> (Compare_test (CompareLeaf GT field [Sc (SInt 3), Sc (SInt 5)]) st = Inr True
            \<longleftrightarrow> (\<exists>x. num_of fieldval = Some x \<and> x > 5))"
proof
  from assms show "Compare_test (CompareLeaf typ field vals) st = Inr True
      \<longleftrightarrow> (\<forall>v \<in> set vals. f fieldval v = Inr True)"
    by (cases "typ") (simp_all add: get_cond_def py_all_True_iff)
next
  from assms(2) show "Compare_test (CompareLeaf GT field [Sc (SInt 3), Sc (SInt 5)]) st = Inr True
      \<longleftrightarrow> (\<exists>x. num_of fieldval = Some x \<and> x > 5)"
    by (cases fieldval) (auto simp: get_cond_def)
qed

theorem Compare_test_leaf_and_across_values_witness:
  "Compare_test (CompareLeaf GT STEP [Sc (SInt 3), Sc (SInt 5)])
     \<lparr>cond = [STEP \<mapsto> SInt 4], slots = Map.empty, IDX = 0, rng = 0\<rparr> = Inr False
   \<and> Compare_test (CompareLeaf GT STEP [Sc (SInt 3), Sc (SInt 5)])
     \<lparr>cond = [STEP \<mapsto> SInt 6], slots = Map.empty, IDX = 0, rng = 0\<rparr> = Inr True"
proof -
  let ?s4 = "\<lparr>cond = [STEP \<mapsto> SInt 4], slots = Map.empty, IDX = 0, rng = 0\<rparr> :: unit state"
  let ?s6 = "\<lparr>cond = [STEP \<mapsto> SInt 6], slots = Map.empty, IDX = 0, rng = 0\<rparr> :: unit state"
  have g: "opfn GT = Some (py_order (\<lambda>x y. x > y) (\<lambda>u v. str_lt v u))" by simp
  have c4: "cond ?s4 STEP = Some (SInt 4)" and c6: "cond ?s6 STEP = Some (SInt 6)" by simp_all
  from Compare_test_leaf_and_across_values [OF g c4, of "[Sc (SInt 3), Sc (SInt 5)]"]
       Compare_test_leaf_and_across_values [OF g c6, of "[Sc (SInt 3), Sc (SInt 5)]"]
  show ?thesis by (simp add: get_cond_def)
qed

section \<open>Step assignment (C3)\<close>

lemma torch_min_spec:
  "xs \<noteq> [] \<Longrightarrow> \<exists>m i. torch_min xs = Inr (m, i) \<and> i < length xs \<and> xs ! i = m
     \<and> (\<forall>j<length xs. m \<le> xs ! j) \<and> (\<forall>j<i. m < xs ! j)"
proof (induction xs rule: torch_min.induct)
  case 1
  then show ?case by simp
next
  case (2 x)
  then show ?case by simp
next
  case (3 x y ys)
  then obtain m i where IH: "torch_min (y # ys) = Inr (m, i)" "i < length (y # ys)"
    "(y # ys) ! i = m" "\<forall>j<length (y # ys). m \<le> (y # ys) ! j" "\<forall>j<i. m < (y # ys) ! j"
    by auto
  show ?case
  proof (cases "x \<le> m")
    case True
    have "\<forall>j<length (x # y # ys). x \<le> (x # y # ys) ! j"
    proof (intro allI impI)
      fix j assume "j < length (x # y # ys)"
      then show "x \<le> (x # y # ys) ! j"
        using True IH(4) by (cases j) (auto intro: order_trans)
    qed
    with True IH(1) show ?thesis by simp
  next
    case False
    have a: "\<forall>j<length (x # y # ys). m \<le> (x # y # ys) ! j"
    proof (intro allI impI)
      fix j assume "j < length (x # y # ys)"
      then show "m \<le> (x # y # ys) ! j"
        using False IH(4) by (cases j) auto
    qed
    have b: "\<forall>j<Suc i. m < (x # y # ys) ! j"
    proof (intro allI impI)
      fix j assume "j < Suc i"
      then show "m < (x # y # ys) ! j"
        using False IH(5) by (cases j) auto
    qed
    from False IH(1,2,3) a b show ?thesis by simp
  qed
qed

lemma set_state_step_nearest:
  assumes "butlast sched \<noteq> []"
  shows "\<exists>i d. i < length sched - 1
       \<and> d = \<bar>sched ! i - sigma\<bar>
       \<and> (\<forall>j<length sched - 1. d \<le> \<bar>sched ! j - sigma\<bar>)
       \<and> (\<forall>j<i. d < \<bar>sched ! j - sigma\<bar>)
       \<and> set_state_step (Some sched) st sigma =
           Inr (st\<lparr>cond := (cond st)
                       (STEP \<mapsto> SInt (int i + 1),
                        STEP_EXACT \<mapsto> SInt (if d > 15 / 10000000 then - 1 else int i + 1)),
                     slots := (slots st)
                       (''sigma'' \<mapsto> Val (SFloat (sched ! i)),
                        ''sigma_next'' \<mapsto> Val (SFloat (sched ! (i + 1))))\<rparr>)"
proof -
  let ?ds = "map (\<lambda>s. \<bar>s - sigma\<bar>) (butlast sched)"
  from assms have ne: "?ds \<noteq> []" by simp
  from torch_min_spec [OF ne] obtain m i where
    tm: "torch_min ?ds = Inr (m, i)" and i: "i < length ?ds" and m: "?ds ! i = m"
    and least: "\<forall>j<length ?ds. m \<le> ?ds ! j" and first: "\<forall>j<i. m < ?ds ! j"
    by blast
  have len: "length ?ds = length sched - 1" by simp
  have nth: "?ds ! j = \<bar>sched ! j - sigma\<bar>" if "j < length sched - 1" for j
    using that by (simp add: nth_butlast)
  have "i < length sched - 1" using i by simp
  moreover have "m = \<bar>sched ! i - sigma\<bar>" using m i nth by simp
  moreover have "\<forall>j<length sched - 1. m \<le> \<bar>sched ! j - sigma\<bar>"
    using least nth by (metis len)
  moreover have "\<forall>j<i. m < \<bar>sched ! j - sigma\<bar>"
  proof (intro allI impI)
    fix j assume "j < i"
    then have "j < length sched - 1" using i by simp
    with first \<open>j < i\<close> show "m < \<bar>sched ! j - sigma\<bar>" by (metis nth)
  qed
  moreover have "set_state_step (Some sched) st sigma =
           Inr (st\<lparr>cond := (cond st)
                       (STEP \<mapsto> SInt (int i + 1),
                        STEP_EXACT \<mapsto> SInt (if m > 15 / 10000000 then - 1 else int i + 1)),
                     slots := (slots st)
                       (''sigma'' \<mapsto> Val (SFloat (sched ! i)),
                        ''sigma_next'' \<mapsto> Val (SFloat (sched ! (i + 1))))\<rparr>)"
    using tm by (simp add: set_state_step_def)
  ultimately show ?thesis by blast
qed

text \<open>
  Claim C3, as amended. Given a schedule and an index \<open>k\<close> that is not its last one:
  if the query sigma equals entry \<open>k\<close> and no earlier entry, then \<^verbatim>\<open>step\<close> and
  \<^verbatim>\<open>step_exact\<close> are both \<open>k + 1\<close>; if every entry but the last differs from the query
  sigma by more than \<open>1.5e-6\<close>, then \<^verbatim>\<open>step_exact\<close> is \<open>-1\<close> and \<^verbatim>\<open>step\<close> is
  \<open>i + 1\<close> for an index \<open>i\<close> of a nearest entry among all but the last.
\<close>

theorem set_state_step_exact_and_nearest:
  assumes "Suc k < length sched"
  shows "(sched ! k = sigma \<and> (\<forall>j<k. sched ! j \<noteq> sigma) \<longrightarrow>
            (\<exists>st'. set_state_step (Some sched) st sigma = Inr st'
               \<and> cond st' STEP = Some (SInt (int k + 1))
               \<and> cond st' STEP_EXACT = Some (SInt (int k + 1))))
       \<and> ((\<forall>j<length sched - 1. \<bar>sched ! j - sigma\<bar> > 15 / 10000000) \<longrightarrow>
            (\<exists>st' i. set_state_step (Some sched) st sigma = Inr st'
               \<and> cond st' STEP_EXACT = Some (SInt (- 1))
               \<and> cond st' STEP = Some (SInt (int i + 1))
               \<and> i < length sched - 1
               \<and> (\<forall>j<length sched - 1. \<bar>sched ! i - sigma\<bar> \<le> \<bar>sched ! j - sigma\<bar>)))"
proof -
  from assms have ne: "butlast sched \<noteq> []" by (cases sched) auto
  from set_state_step_nearest [OF ne, of sigma st] obtain i d where
    i: "i < length sched - 1" and d: "d = \<bar>sched ! i - sigma\<bar>"
    and least: "\<forall>j<length sched - 1. d \<le> \<bar>sched ! j - sigma\<bar>"
    and first: "\<forall>j<i. d < \<bar>sched ! j - sigma\<bar>"
    and res: "set_state_step (Some sched) st sigma =
           Inr (st\<lparr>cond := (cond st)
                       (STEP \<mapsto> SInt (int i + 1),
                        STEP_EXACT \<mapsto> SInt (if d > 15 / 10000000 then - 1 else int i + 1)),
                     slots := (slots st)
                       (''sigma'' \<mapsto> Val (SFloat (sched ! i)),
                        ''sigma_next'' \<mapsto> Val (SFloat (sched ! (i + 1))))\<rparr>)"
    by blast
  show ?thesis
  proof (intro conjI impI)
    assume a: "sched ! k = sigma \<and> (\<forall>j<k. sched ! j \<noteq> sigma)"
    from assms have k: "k < length sched - 1" by simp
    with least a have "d \<le> 0" by fastforce
    with d have d0: "d = 0" and eq: "sched ! i = sigma" by auto
    have "i = k"
    proof (rule ccontr)
      assume "i \<noteq> k"
      then consider "i < k" | "k < i" by linarith
      then show False
      proof cases
        case 1
        with a eq show False by blast
      next
        case 2
        with first a d0 show False by fastforce
      qed
    qed
    with res d0 show "\<exists>st'. set_state_step (Some sched) st sigma = Inr st'
               \<and> cond st' STEP = Some (SInt (int k + 1))
               \<and> cond st' STEP_EXACT = Some (SInt (int k + 1))"
      by simp
  next
    assume far: "\<forall>j<length sched - 1. \<bar>sched ! j - sigma\<bar> > 15 / 10000000"
    with i d have "d > 15 / 10000000" by simp
    with res i d least show "\<exists>st' i. set_state_step (Some sched) st sigma = Inr st'
               \<and> cond st' STEP_EXACT = Some (SInt (- 1))
               \<and> cond st' STEP = Some (SInt (int i + 1))
               \<and> i < length sched - 1
               \<and> (\<forall>j<length sched - 1. \<bar>sched ! i - sigma\<bar> \<le> \<bar>sched ! j - sigma\<bar>)"
      by (intro exI [of _ "st\<lparr>cond := (cond st)
                       (STEP \<mapsto> SInt (int i + 1),
                        STEP_EXACT \<mapsto> SInt (- 1)),
                     slots := (slots st)
                       (''sigma'' \<mapsto> Val (SFloat (sched ! i)),
                        ''sigma_next'' \<mapsto> Val (SFloat (sched ! (i + 1))))\<rparr>"] exI [of _ i]) simp
  qed
qed

theorem set_state_step_exact_and_nearest_witness:
  "(\<exists>st'. set_state_step (Some [3, 2, 1, 0]) empty_state 2 = Inr st'
       \<and> cond st' STEP = Some (SInt 2) \<and> cond st' STEP_EXACT = Some (SInt 2))
   \<and> (\<exists>st' i. set_state_step (Some [3, 2, 1, 0]) empty_state (5 / 2) = Inr st'
       \<and> cond st' STEP_EXACT = Some (SInt (- 1)) \<and> cond st' STEP = Some (SInt (int i + 1))
       \<and> i < 3)"
proof -
  have len: "Suc 1 < length [3, 2, 1, 0 :: real]" by simp
  have h1: "[3, 2, 1, 0 :: real] ! 1 = 2 \<and> (\<forall>j<1. [3, 2, 1, 0 :: real] ! j \<noteq> 2)" by simp
  have h2: "\<forall>j<length [3, 2, 1, 0 :: real] - 1. \<bar>[3, 2, 1, 0 :: real] ! j - 5 / 2\<bar> > 15 / 10000000"
  proof (intro allI impI)
    fix j assume "j < length [3, 2, 1, 0 :: real] - 1"
    then have "j = 0 \<or> j = 1 \<or> j = 2" by auto
    then show "\<bar>[3, 2, 1, 0 :: real] ! j - 5 / 2\<bar> > 15 / 10000000" by auto
  qed
  from set_state_step_exact_and_nearest [OF len, of 2 empty_state] h1
  have a: "\<exists>st'. set_state_step (Some [3, 2, 1, 0]) empty_state 2 = Inr st'
       \<and> cond st' STEP = Some (SInt 2) \<and> cond st' STEP_EXACT = Some (SInt 2)"
    by simp
  from set_state_step_exact_and_nearest [OF len, of "5 / 2" empty_state] h2
  have b: "\<exists>st' i. set_state_step (Some [3, 2, 1, 0]) empty_state (5 / 2) = Inr st'
       \<and> cond st' STEP_EXACT = Some (SInt (- 1)) \<and> cond st' STEP = Some (SInt (int i + 1))
       \<and> i < 3"
    by fastforce
  from a b show ?thesis by blast
qed

text \<open>
  The claim as stated fails for the last entry of the schedule, which
  \<^verbatim>\<open>sigmas_opt[:-1]\<close> leaves out: with the schedule \<open>[1, 0]\<close> and the query sigma
  \<open>0\<close>, equal to entry 1, \<^verbatim>\<open>step\<close> is 1 and \<^verbatim>\<open>step_exact\<close> is \<open>-1\<close>, not 2. It
  also fails for an entry that repeats an earlier one: with the schedule \<open>[1, 1, 0]\<close>
  and the query sigma \<open>1\<close>, equal to entry 1, both are 1, not 2.
\<close>

theorem set_state_step_last_entry_counterexample:
  "set_state_step (Some [1, 0]) empty_state 0 =
     Inr (empty_state\<lparr>cond := [STEP \<mapsto> SInt 1, STEP_EXACT \<mapsto> SInt (- 1)],
                      slots := [''sigma'' \<mapsto> Val (SFloat 1), ''sigma_next'' \<mapsto> Val (SFloat 0)]\<rparr>)
   \<and> set_state_step (Some [1, 1, 0]) empty_state 1 =
     Inr (empty_state\<lparr>cond := [STEP \<mapsto> SInt 1, STEP_EXACT \<mapsto> SInt 1],
                      slots := [''sigma'' \<mapsto> Val (SFloat 1), ''sigma_next'' \<mapsto> Val (SFloat 1)]\<rparr>)"
  by (simp add: set_state_step_def empty_state_def)

section \<open>The percent of a sigma (C4)\<close>

lemma bisect_loop_spec:
  assumes "sorted a" "lo \<le> hi" "hi \<le> length a"
    "\<forall>i<lo. a ! i \<le> x" "\<forall>i. hi \<le> i \<and> i < length a \<longrightarrow> x < a ! i"
  shows "lo \<le> bisect_loop a x lo hi \<and> bisect_loop a x lo hi \<le> hi
    \<and> (\<forall>i<bisect_loop a x lo hi. a ! i \<le> x)
    \<and> (\<forall>i. bisect_loop a x lo hi \<le> i \<and> i < length a \<longrightarrow> x < a ! i)"
  using assms
proof (induction a x lo hi rule: bisect_loop.induct)
  case (1 a x lo hi)
  show ?case
  proof (cases "lo < hi")
    case False
    then have "bisect_loop a x lo hi = lo" by (subst bisect_loop.simps) simp
    with False "1.prems" show ?thesis by auto
  next
    case True
    define mid where "mid = (lo + hi) div 2"
    have m: "lo \<le> mid" "mid < hi" using True by (auto simp: mid_def)
    show ?thesis
    proof (cases "x < a ! mid")
      case lt: True
      have up: "\<forall>i. mid \<le> i \<and> i < length a \<longrightarrow> x < a ! i"
      proof (intro allI impI)
        fix i assume "mid \<le> i \<and> i < length a"
        then have "a ! mid \<le> a ! i" using "1.prems"(1) by (simp add: sorted_iff_nth_mono)
        with lt show "x < a ! i" by simp
      qed
      have eq: "bisect_loop a x lo hi = bisect_loop a x lo mid"
        using True lt by (simp add: bisect_loop.simps [of a x lo hi] mid_def Let_def)
      from "1.IH"(1) [OF True mid_def lt "1.prems"(1) m(1) _ "1.prems"(4) up] m "1.prems"(3)
      show ?thesis unfolding eq by auto
    next
      case ge: False
      have lo': "\<forall>i<mid + 1. a ! i \<le> x"
      proof (intro allI impI)
        fix i assume "i < mid + 1"
        then have "a ! i \<le> a ! mid" using "1.prems"(1,3) m by (simp add: sorted_iff_nth_mono)
        with ge show "a ! i \<le> x" by simp
      qed
      have eq: "bisect_loop a x lo hi = bisect_loop a x (mid + 1) hi"
        using True ge by (simp add: bisect_loop.simps [of a x lo hi] mid_def Let_def)
      from "1.IH"(2) [OF True mid_def ge "1.prems"(1) _ "1.prems"(3) lo' "1.prems"(5)] m
      show ?thesis unfolding eq by auto
    qed
  qed
qed

lemma bisect_loop_all_le:
  "lo \<le> hi \<Longrightarrow> hi \<le> length a \<Longrightarrow> \<forall>i<length a. a ! i \<le> x \<Longrightarrow> bisect_loop a x lo hi = hi"
proof (induction a x lo hi rule: bisect_loop.induct)
  case (1 a x lo hi)
  show ?case
  proof (cases "lo < hi")
    case False
    then have "bisect_loop a x lo hi = lo" by (subst bisect_loop.simps) simp
    with False "1.prems" show ?thesis by auto
  next
    case True
    define mid where "mid = (lo + hi) div 2"
    have m: "lo \<le> mid" "mid < hi" using True by (auto simp: mid_def)
    have ge: "\<not> x < a ! mid" using "1.prems" m by (simp add: not_less)
    have eq: "bisect_loop a x lo hi = bisect_loop a x (mid + 1) hi"
      using True ge by (simp add: bisect_loop.simps [of a x lo hi] mid_def Let_def)
    from "1.IH"(2) [OF True mid_def ge _ "1.prems"(2,3)] m show ?thesis unfolding eq by simp
  qed
qed

lemma length_sig2pct [simp]: "length (sig2pct P) = 401"
  by (simp add: sig2pct_def pct_steps_def)

lemma nth_sig2pct: "i \<le> 400 \<Longrightarrow> sig2pct P ! i = P (real (400 - i) / 400)"
  by (simp add: sig2pct_def pct_steps_def rev_nth)

lemma sorted_sig2pct:
  assumes "\<And>a b. 0 \<le> a \<Longrightarrow> a \<le> b \<Longrightarrow> b \<le> 1 \<Longrightarrow> P b \<le> P a"
  shows "sorted (sig2pct P)"
  unfolding sorted_iff_nth_mono
proof (intro allI impI)
  fix i j assume "i \<le> j" "j < length (sig2pct P)"
  then have ij: "i \<le> j" "j \<le> 400" by simp_all
  have "P (real (400 - i) / 400) \<le> P (real (400 - j) / 400)"
    using ij by (intro assms) (simp_all add: divide_le_cancel)
  with ij show "sig2pct P ! i \<le> sig2pct P ! j" by (simp add: nth_sig2pct)
qed

lemma get_pct_out_of_range:
  assumes "\<And>i. i \<le> 400 \<Longrightarrow> P (real (400 - i) / 400) \<le> sigma"
  shows "get_pct P (sigma # rest) = Inr None"
proof -
  have "\<forall>i<length (sig2pct P). sig2pct P ! i \<le> sigma"
    using assms by (simp add: nth_sig2pct)
  then have "bisect_right (sig2pct P) sigma = 401"
    using bisect_loop_all_le [of 0 "length (sig2pct P)" "sig2pct P" sigma]
    by (simp add: bisect_right_def)
  then show ?thesis by (simp add: get_pct_def)
qed

lemma get_pct_in_range:
  assumes strict: "\<And>a b. 0 \<le> a \<Longrightarrow> a < b \<Longrightarrow> b \<le> 1 \<Longrightarrow> P b < P a"
    and p: "0 < p" "p \<le> 1"
  shows "\<exists>q. get_pct P (P p # rest) = Inr (Some q) \<and> p - 1 / 400 \<le> q \<and> q < p"
proof -
  let ?a = "sig2pct P"
  define idx where "idx = bisect_right ?a (P p)"
  have mono: "P b \<le> P a" if "0 \<le> a" "a \<le> b" "b \<le> 1" for a b
    using strict [of a b] that by (cases "a = b") auto
  have srt: "sorted ?a" by (rule sorted_sig2pct) (rule mono)
  have spec: "idx \<le> 401 \<and> (\<forall>i<idx. ?a ! i \<le> P p) \<and> (\<forall>i. idx \<le> i \<and> i < 401 \<longrightarrow> P p < ?a ! i)"
    using bisect_loop_spec [OF srt, of 0 "length ?a" "P p"]
    by (simp add: idx_def bisect_right_def)
  have conv: "(400 - real i) / 400 \<ge> p" if "i \<le> 400" "?a ! i \<le> P p" for i
  proof (rule ccontr)
    assume "\<not> ?thesis"
    then have "(400 - real i) / 400 < p" by simp
    moreover have "0 \<le> (400 - real i) / 400" using that by simp
    ultimately have "P p < P ((400 - real i) / 400)" using p by (intro strict)
    with that show False by (simp add: nth_sig2pct of_nat_diff)
  qed
  have conv2: "(400 - real i) / 400 < p" if "i \<le> 400" "P p < ?a ! i" for i
  proof (rule ccontr)
    assume "\<not> ?thesis"
    then have "p \<le> (400 - real i) / 400" by simp
    moreover have "(400 - real i) / 400 \<le> 1" by simp
    ultimately have "P ((400 - real i) / 400) \<le> P p" using p by (intro mono) simp_all
    with that show False by (simp add: nth_sig2pct of_nat_diff)
  qed
  have last: "P p < ?a ! 400" using strict [of 0 p] p by (simp add: nth_sig2pct)
  have le400: "idx \<le> 400"
  proof (rule ccontr)
    assume "\<not> idx \<le> 400"
    then have "400 < idx" by simp
    with spec have "?a ! 400 \<le> P p" by blast
    with last show False by simp
  qed
  have pos: "idx \<noteq> 0"
  proof
    assume "idx = 0"
    with spec have "P p < ?a ! 0" by simp
    from conv2 [OF _ this] p show False by simp
  qed
  have up: "(400 - real idx) / 400 < p" using conv2 [of idx] spec le400 by simp
  have "?a ! (idx - 1) \<le> P p" using spec pos by simp
  from conv [OF _ this] le400 pos have lo: "(400 - real (idx - 1)) / 400 \<ge> p" by simp
  have "get_pct P (P p # rest) = Inr (Some ((400 - real idx) / 400))"
    using le400
    by (simp add: get_pct_def idx_def [symmetric] Let_def pct_incr_def pct_steps_def of_nat_diff)
  moreover have "p - 1 / 400 \<le> (400 - real idx) / 400"
    using lo pos by (simp add: of_nat_diff field_simps)
  ultimately show ?thesis using up by blast
qed




section \<open>A sigma out of the range of the table (C1)\<close>

lemma get_pct_two: "get_pct (\<lambda>x. 1 - x) [2] = Inr None"
  by (rule get_pct_out_of_range) simp

text \<open>
  Claim C1 says that every patch passes its input through when the percent lookup
  fails. With \<^verbatim>\<open>percent_to_sigma(p) = 1 - p\<close> and the sigma 2 the lookup fails; the
  input and middle block patches return \<open>h\<close>, but the output block patch returns \<open>h\<close>
  alone instead of the pair of \<open>h\<close> and \<open>hsp\<close>, and the post-CFG patch returns
  \<^verbatim>\<open>None\<close> instead of the denoised tensor.
\<close>

theorem out_of_range_sigma_returns:
  "block_patch L (\<lambda>x. 1 - x) sigmas_opt rules idx g typ h \<lparr>sigmas = [2], block = b\<rparr>
     = Inr (RetValue (Tensor h))
   \<and> output_block_patch L (\<lambda>x. 1 - x) sigmas_opt rules idx g h hsp \<lparr>sigmas = [2], block = b\<rparr>
     = Inr (RetValue (Tensor h))
   \<and> post_cfg_patch L (\<lambda>x. 1 - x) sigmas_opt rules idx g [2] denoised = Inr RetNone"
  by (simp add: block_patch_def output_block_patch_def post_cfg_patch_def make_state_def
      get_pct_two)

section \<open>No step schedule (C2)\<close>

text \<open>
  Claim C2 says that without a schedule the construction of the state completes with
  \<^verbatim>\<open>step\<close> and \<^verbatim>\<open>step_exact\<close> set to \<open>-1\<close>. The code raises \<^verbatim>\<open>NameError\<close> instead:
  \<^verbatim>\<open>set_state_step\<close> does for every state and sigma, and so does a block patch whose
  sigma is in the range of the table.
\<close>

theorem no_schedule_raises_NameError:
  "set_state_step None st sigma = Inl (NameError ''Condtype'')
   \<and> block_patch example_lib (\<lambda>x. 1 - x) None rules idx g ''input'' [1, 4, 8, 8]
       \<lparr>sigmas = [1 / 2], block = (''input'', 0)\<rparr> = Inl (NameError ''Condtype'')"
proof -
  obtain q where "get_pct (\<lambda>x. 1 - x) [1 / 2] = Inr (Some q)"
    using get_pct_in_range [of "\<lambda>x. 1 - x" "1 / 2" "[]"] by auto
  then show ?thesis
    by (simp add: block_patch_def make_state_def set_state_step_def example_lib_def
        seq_index_def)
qed

section \<open>The target redirect (C7)\<close>

text \<open>
  Claim C7, as amended. \<^verbatim>\<open>TARGET_SKIP\<close> on a state whose \<^verbatim>\<open>hsp\<close> slot is absent or
  \<^verbatim>\<open>None\<close> sets the target to \<^verbatim>\<open>"h"\<close> if it was \<^verbatim>\<open>"hsp"\<close> and leaves the state as
  it is otherwise, whatever the argument; when \<^verbatim>\<open>hsp\<close> is present, the target becomes
  \<^verbatim>\<open>"hsp"\<close> if the argument is \<^verbatim>\<open>True\<close> and \<^verbatim>\<open>"h"\<close> if not.
\<close>

theorem TARGET_SKIP_target:
  assumes "target_of st = Inr k" and "slots st k = Some t"
  shows "(slots st ''hsp'' = None \<or> slots st ''hsp'' = Some (Val SNone) \<longrightarrow>
            eval_op L TARGET_SKIP args st =
              Inr (if k = ''hsp'' then set_slot st ''target'' (Val (SStr ''h'')) else st))
       \<and> (slots st ''hsp'' \<noteq> None \<and> slots st ''hsp'' \<noteq> Some (Val SNone) \<longrightarrow>
            eval_op L TARGET_SKIP (a # args) st =
              Inr (set_slot st ''target''
                     (Val (SStr (if a = Sc (SBool True) then ''hsp'' else ''h'')))))"
  using assms
  by (auto simp: with_target_def get_slot_def target_of_def arg0_def
      split: option.splits slotval.splits scalar.splits)

theorem TARGET_SKIP_target_witness:
  "eval_op example_lib TARGET_SKIP [Sc (SBool True)] scratch_state = Inr scratch_state
   \<and> eval_op example_lib TARGET_SKIP [Sc (SBool True)]
       (scratch_state\<lparr>slots := (slots scratch_state)(''hsp'' \<mapsto> Tensor [1, 4, 16, 16])\<rparr>)
     = Inr (set_slot (scratch_state\<lparr>slots := (slots scratch_state)(''hsp'' \<mapsto> Tensor [1, 4, 16, 16])\<rparr>)
              ''target'' (Val (SStr ''hsp'')))"
proof -
  let ?s2 = "scratch_state\<lparr>slots := (slots scratch_state)(''hsp'' \<mapsto> Tensor [1, 4, 16, 16])\<rparr>"
  have t1: "target_of scratch_state = Inr ''temp0''"
    and k1: "slots scratch_state ''temp0'' = Some (Tensor [1, 4, 8, 8])"
    and h1: "slots scratch_state ''hsp'' = Some (Val SNone)"
    by (simp_all add: target_of_def scratch_state_def)
  have t2: "target_of ?s2 = Inr ''temp0''"
    and k2: "slots ?s2 ''temp0'' = Some (Tensor [1, 4, 8, 8])"
    and h2: "slots ?s2 ''hsp'' \<noteq> None \<and> slots ?s2 ''hsp'' \<noteq> Some (Val SNone)"
    by (simp_all add: target_of_def scratch_state_def)
  from TARGET_SKIP_target [OF t1 k1, of example_lib "[Sc (SBool True)]" "Sc (SBool True)"] h1
       TARGET_SKIP_target [OF t2 k2, of example_lib "[]" "Sc (SBool True)"] h2
  show ?thesis by simp
qed

text \<open>
  The claim as stated fails inside a blend, where the target is a scratch slot: without
  a companion tensor the target stays \<^verbatim>\<open>"temp0"\<close> and does not become \<^verbatim>\<open>"h"\<close>.
\<close>

theorem TARGET_SKIP_scratch_counterexample:
  "eval_op example_lib TARGET_SKIP [Sc (SBool True)] scratch_state = Inr scratch_state
   \<and> target_of scratch_state = Inr ''temp0''"
  by (simp add: with_target_def get_slot_def target_of_def scratch_state_def)

section \<open>Unscale (C8)\<close>

lemma unscale_hsp_absent:
  "slots st ''hsp'' = None \<Longrightarrow> unscale_hsp L msg st t = Inl KeyError"
  by (simp add: unscale_hsp_def get_slot_def)

lemma unscale_hsp_None:
  "slots st ''hsp'' = Some (Val SNone) \<Longrightarrow> unscale_hsp L msg st t = Inl (ValueError msg)"
  by (simp add: unscale_hsp_def get_slot_def)

lemma unscale_hsp_tensor:
  assumes "slots st ''hsp'' = Some (Tensor hh)"
    and "seq_index (shape L tt) (- 1) = Inr tw" and "seq_index (shape L tt) (- 2) = Inr th"
    and "seq_index (shape L hh) (- 1) = Inr hw" and "seq_index (shape L hh) (- 2) = Inr hht"
  shows "unscale_hsp L msg st (Tensor tt) = Inr (if tw = hw \<and> th = hht then None else Some hh)"
  using assms by (simp add: unscale_hsp_def get_slot_def)

text \<open>
  Claim C8. For \<^verbatim>\<open>UNSCALE\<close> and \<^verbatim>\<open>UNSCALE_TORCH\<close>, on a state whose target names a
  slot: without the key \<^verbatim>\<open>hsp\<close> the operation raises \<^verbatim>\<open>KeyError\<close>, with \<^verbatim>\<open>hsp\<close>
  \<^verbatim>\<open>None\<close> it raises the \<^verbatim>\<open>ValueError\<close> of the source; when \<^verbatim>\<open>hsp\<close> is a tensor whose
  last two dimensions equal those of the target, the state is returned unchanged;
  otherwise the target is bound to the result of \<^verbatim>\<open>scale_samples\<close> for the width and
  height of \<^verbatim>\<open>hsp\<close>.
\<close>

theorem unscale_behaviour:
  assumes "typ = UNSCALE \<or> typ = UNSCALE_TORCH"
    and "target_of st = Inr k" and "slots st k = Some t"
  shows "(slots st ''hsp'' = None \<longrightarrow> eval_op L typ args st = Inl KeyError)
       \<and> (slots st ''hsp'' = Some (Val SNone) \<longrightarrow>
            eval_op L typ args st =
              Inl (ValueError (if typ = UNSCALE
                               then ''Can only use unscale when HSP is set (output)''
                               else ''Can only use unscale_torch when HSP is set (output)'')))
       \<and> (t = Tensor tt \<and> slots st ''hsp'' = Some (Tensor hh)
            \<and> seq_index (shape L tt) (- 1) = Inr tw \<and> seq_index (shape L tt) (- 2) = Inr th
            \<and> seq_index (shape L hh) (- 1) = Inr hw \<and> seq_index (shape L hh) (- 2) = Inr hht \<longrightarrow>
            (tw = hw \<and> th = hht \<longrightarrow> eval_op L typ args st = Inr st)
          \<and> (\<not> (tw = hw \<and> th = hht) \<longrightarrow>
               (typ = UNSCALE_TORCH \<and> args = [mode, antialias] \<longrightarrow>
                  eval_op L typ args st =
                    ebind (scale_samples L tt (int hw) (int hht) mode None
                             (Sc (SInt (if py_truthy antialias then 8 else 0))))
                      (\<lambda>out. Inr (set_slot st k (Tensor out))))
             \<and> (typ = UNSCALE \<and> args = [mode_w, mode_h, antialias_size] \<longrightarrow>
                  eval_op L typ args st =
                    ebind (scale_samples L tt (int hw) (int hht) mode_w (Some mode_h)
                             antialias_size)
                      (\<lambda>out. Inr (set_slot st k (Tensor out))))))"
proof -
  from assms(2,3) have wt: "\<And>f :: 'a slotval \<Rightarrow> error + 'a state. with_target st f = f t"
    by (simp add: with_target_def get_slot_def)
  from assms(2) have at: "\<And>out. assign_target st out = Inr (set_slot st k out)"
    by (simp add: assign_target_def)
  show ?thesis
  proof (intro conjI impI)
    assume "slots st ''hsp'' = None"
    with assms(1) show "eval_op L typ args st = Inl KeyError"
      by (auto simp: wt op_unscale_def op_unscale_torch_def unscale_hsp_absent)
  next
    assume "slots st ''hsp'' = Some (Val SNone)"
    with assms(1) show "eval_op L typ args st =
              Inl (ValueError (if typ = UNSCALE
                               then ''Can only use unscale when HSP is set (output)''
                               else ''Can only use unscale_torch when HSP is set (output)''))"
      by (auto simp: wt op_unscale_def op_unscale_torch_def unscale_hsp_None)
  next
    assume a: "t = Tensor tt \<and> slots st ''hsp'' = Some (Tensor hh)
            \<and> seq_index (shape L tt) (- 1) = Inr tw \<and> seq_index (shape L tt) (- 2) = Inr th
            \<and> seq_index (shape L hh) (- 1) = Inr hw \<and> seq_index (shape L hh) (- 2) = Inr hht"
      and b: "tw = hw \<and> th = hht"
    then have "unscale_hsp L msg st t = Inr None" for msg
      using unscale_hsp_tensor [of st hh L tt tw th hw hht msg] by simp
    with assms(1) show "eval_op L typ args st = Inr st"
      by (auto simp: wt op_unscale_def op_unscale_torch_def)
  next
    assume a: "t = Tensor tt \<and> slots st ''hsp'' = Some (Tensor hh)
            \<and> seq_index (shape L tt) (- 1) = Inr tw \<and> seq_index (shape L tt) (- 2) = Inr th
            \<and> seq_index (shape L hh) (- 1) = Inr hw \<and> seq_index (shape L hh) (- 2) = Inr hht"
      and b: "\<not> (tw = hw \<and> th = hht)"
      and c: "typ = UNSCALE_TORCH \<and> args = [mode, antialias]"
    then have "unscale_hsp L msg st t = Inr (Some hh)" for msg
      using unscale_hsp_tensor [of st hh L tt tw th hw hht msg] by simp
    with a c show "eval_op L typ args st =
                    ebind (scale_samples L tt (int hw) (int hht) mode None
                             (Sc (SInt (if py_truthy antialias then 8 else 0))))
                      (\<lambda>out. Inr (set_slot st k (Tensor out)))"
      by (cases "scale_samples L tt (int hw) (int hht) mode None
                   (Sc (SInt (if py_truthy antialias then 8 else 0)))")
         (simp_all add: wt at op_unscale_torch_def)
  next
    assume a: "t = Tensor tt \<and> slots st ''hsp'' = Some (Tensor hh)
            \<and> seq_index (shape L tt) (- 1) = Inr tw \<and> seq_index (shape L tt) (- 2) = Inr th
            \<and> seq_index (shape L hh) (- 1) = Inr hw \<and> seq_index (shape L hh) (- 2) = Inr hht"
      and b: "\<not> (tw = hw \<and> th = hht)"
      and c: "typ = UNSCALE \<and> args = [mode_w, mode_h, antialias_size]"
    then have "unscale_hsp L msg st t = Inr (Some hh)" for msg
      using unscale_hsp_tensor [of st hh L tt tw th hw hht msg] by simp
    with a c show "eval_op L typ args st =
                    ebind (scale_samples L tt (int hw) (int hht) mode_w (Some mode_h)
                             antialias_size)
                      (\<lambda>out. Inr (set_slot st k (Tensor out)))"
      by (cases "scale_samples L tt (int hw) (int hht) mode_w (Some mode_h) antialias_size")
         (simp_all add: wt at op_unscale_def)
  qed
qed

theorem unscale_behaviour_witness:
  "eval_op example_lib UNSCALE [] (output_state [1, 4, 8, 8] (Val SNone))
     = Inl (ValueError ''Can only use unscale when HSP is set (output)'')
   \<and> eval_op example_lib UNSCALE_TORCH [] (output_state [1, 4, 8, 8] (Tensor [1, 8, 8, 8]))
     = Inr (output_state [1, 4, 8, 8] (Tensor [1, 8, 8, 8]))
   \<and> eval_op example_lib UNSCALE_TORCH [Sc (SStr ''bicubic''), Sc (SBool False)]
       (output_state [1, 4, 8, 8] (Tensor [1, 8, 16, 12]))
     = Inr (set_slot (output_state [1, 4, 8, 8] (Tensor [1, 8, 16, 12])) ''h''
              (Tensor [1, 4, 16, 12]))"
proof -
  let ?s1 = "output_state [1, 4, 8, 8] (Val SNone)"
  let ?s2 = "output_state [1, 4, 8, 8] (Tensor [1, 8, 8, 8])"
  let ?s3 = "output_state [1, 4, 8, 8] (Tensor [1, 8, 16, 12])"
  have u: "UNSCALE = UNSCALE \<or> UNSCALE = UNSCALE_TORCH"
    and ut: "UNSCALE_TORCH = UNSCALE \<or> UNSCALE_TORCH = UNSCALE_TORCH" by simp_all
  have t: "target_of (output_state h hsp) = Inr ''h''"
    and k: "slots (output_state h hsp) ''h'' = Some (Tensor h)" for h hsp
    by (simp_all add: output_state_def target_of_def)
  have d: "seq_index (shape example_lib [1, 4, 8, 8]) (- 1) = Inr 8"
    "seq_index (shape example_lib [1, 4, 8, 8]) (- 2) = Inr 8"
    "seq_index (shape example_lib [1, 8, 8, 8]) (- 1) = Inr 8"
    "seq_index (shape example_lib [1, 8, 8, 8]) (- 2) = Inr 8"
    "seq_index (shape example_lib [1, 8, 16, 12]) (- 1) = Inr 12"
    "seq_index (shape example_lib [1, 8, 16, 12]) (- 2) = Inr 16"
    by (simp_all add: example_lib_def seq_index_def)
  have h: "slots (output_state h hsp) ''hsp'' = Some hsp" for h hsp
    by (simp add: output_state_def)
  from unscale_behaviour [OF u t k, where L = example_lib and args = "[]"
      and h1 = "[1, 4, 8, 8]" and hsp1 = "Val SNone"] h
  have a: "eval_op example_lib UNSCALE [] ?s1
     = Inl (ValueError ''Can only use unscale when HSP is set (output)'')"
    by simp
  from unscale_behaviour [OF ut t k, where L = example_lib and args = "[]"
      and h1 = "[1, 4, 8, 8]" and hsp1 = "Tensor [1, 8, 8, 8]" and tt = "[1, 4, 8, 8]"
      and hh = "[1, 8, 8, 8]" and tw = 8 and th = 8 and hw = 8 and hht = 8] h d
  have b: "eval_op example_lib UNSCALE_TORCH [] ?s2 = Inr ?s2"
    by simp
  from unscale_behaviour [OF ut t k, where L = example_lib
      and args = "[Sc (SStr ''bicubic''), Sc (SBool False)]"
      and h1 = "[1, 4, 8, 8]" and hsp1 = "Tensor [1, 8, 16, 12]" and tt = "[1, 4, 8, 8]"
      and hh = "[1, 8, 16, 12]" and tw = 8 and th = 8 and hw = 12 and hht = 16
      and mode = "Sc (SStr ''bicubic'')" and antialias = "Sc (SBool False)"] h d
  have c: "eval_op example_lib UNSCALE_TORCH [Sc (SStr ''bicubic''), Sc (SBool False)] ?s3
     = Inr (set_slot ?s3 ''h'' (Tensor [1, 4, 16, 12]))"
    by (simp add: example_lib_def)
  from a b c show ?thesis by simp
qed

section \<open>Rules that do not match (C9)\<close>

lemma no_match_unchanged:
  "Rule_no_match r st \<Longrightarrow> Rule_eval L r st = Inr st"
  "Rules_no_match rs st \<Longrightarrow> Rules_eval L rs st = Inr st"
  by (induction L r st and L rs st rule: Rule_eval_Rules_eval.induct) auto

text \<open>
  Claim C9. If no rule reached by the evaluation of a rule group has a matching
  condition group, the evaluation returns the state it was given: \<open>h\<close>, \<open>hsp\<close> and
  every other entry are as before.
\<close>

theorem RuleGroup_eval_no_match_unchanged:
  assumes "Rules_no_match rules st"
  shows "RuleGroup_eval L rules st = Inr st"
  using assms by (simp add: RuleGroup_eval_def no_match_unchanged)

theorem RuleGroup_eval_no_match_unchanged_witness:
  "RuleGroup_eval example_lib
     [Rule [Condition BLOCK [SInt 3]] [Operation MULTIPLY [Sc (SFloat (1 / 2))]] []
        [Rule [Condition FROM_STEP [SInt 10]] [Operation FLIP [Sc (SStr ''v'')]] [] []]]
     (output_state [1, 4, 8, 8] (Tensor [1, 4, 8, 8]))
   = Inr (output_state [1, 4, 8, 8] (Tensor [1, 4, 8, 8]))"
proof -
  have "Rules_no_match
     [Rule [Condition BLOCK [SInt 3]] [Operation MULTIPLY [Sc (SFloat (1 / 2))]] []
        [Rule [Condition FROM_STEP [SInt 10]] [Operation FLIP [Sc (SStr ''v'')]] [] []]]
     (output_state [1, 4, 8, 8] (Tensor [1, 4, 8, 8]))"
    by (simp add: output_state_def get_cond_def)
  then show ?thesis by (rule RuleGroup_eval_no_match_unchanged)
qed

section \<open>The frame of an operation (C6)\<close>

subsection \<open>Scratch names\<close>

lemma digit_char_inj: "a < 10 \<Longrightarrow> b < 10 \<Longrightarrow> digit_char a = digit_char b \<Longrightarrow> a = b"
proof -
  assume a: "a < 10" and b: "b < 10" and e: "digit_char a = digit_char b"
  have d: "distinct ''0123456789''" by simp
  have "a < length ''0123456789''" "b < length ''0123456789''" using a b by simp_all
  with d e show "a = b" unfolding digit_char_def by (simp only: nth_eq_iff_index_eq)
qed

lemma str_of_nat_small: "n < 10 \<Longrightarrow> str_of_nat n = [digit_char n]"
  by (subst str_of_nat.simps) simp

lemma str_of_nat_big:
  "\<not> n < 10 \<Longrightarrow> str_of_nat n = str_of_nat (n div 10) @ [digit_char (n mod 10)]"
  by (subst str_of_nat.simps) simp

lemma str_of_nat_nonempty: "str_of_nat n \<noteq> []"
  by (cases "n < 10") (simp_all add: str_of_nat_small str_of_nat_big)

lemma str_of_nat_inj: "str_of_nat m = str_of_nat n \<Longrightarrow> m = n"
proof (induction m arbitrary: n rule: str_of_nat.induct)
  case (1 m)
  show ?case
  proof (cases "m < 10")
    case True
    with "1.prems" have e: "[digit_char m] = str_of_nat n" by (simp add: str_of_nat_small)
    have "n < 10"
    proof (rule ccontr)
      assume "\<not> n < 10"
      with e have "[digit_char m] = str_of_nat (n div 10) @ [digit_char (n mod 10)]"
        by (simp add: str_of_nat_big)
      then show False using str_of_nat_nonempty [of "n div 10"] by simp
    qed
    with e True show ?thesis by (simp add: str_of_nat_small digit_char_inj)
  next
    case False
    with "1.prems" have e: "str_of_nat (m div 10) @ [digit_char (m mod 10)] = str_of_nat n"
      by (simp add: str_of_nat_big)
    have n: "\<not> n < 10"
    proof
      assume "n < 10"
      with e have "str_of_nat (m div 10) @ [digit_char (m mod 10)] = [digit_char n]"
        by (simp add: str_of_nat_small)
      then show False using str_of_nat_nonempty [of "m div 10"] by simp
    qed
    with e have "str_of_nat (m div 10) = str_of_nat (n div 10)"
      and d: "digit_char (m mod 10) = digit_char (n mod 10)"
      by (simp_all add: str_of_nat_big)
    with "1.IH" False have "m div 10 = n div 10" by blast
    moreover from d have "m mod 10 = n mod 10" by (intro digit_char_inj) simp_all
    ultimately have "m div 10 * 10 + m mod 10 = n div 10 * 10 + n mod 10" by simp
    then show ?thesis by simp
  qed
qed

lemma tempname_inj: "tempname m = tempname n \<longleftrightarrow> m = n"
  by (auto simp: tempname_def dest: str_of_nat_inj)

lemma tempname_not_target [simp]: "tempname n \<noteq> ''target''" "''target'' \<noteq> tempname n"
  by (simp_all add: tempname_def)

subsection \<open>Operations\<close>

lemma target_of_D: "target_of st = Inr k \<Longrightarrow> slots st ''target'' = Some (Val (SStr k))"
  by (auto simp: target_of_def split: option.splits slotval.splits scalar.splits)

lemma with_target_D:
  assumes "with_target st f = Inr r"
  obtains k t where "target_of st = Inr k" "slots st k = Some t" "f t = Inr r"
  using assms
  by (auto simp: with_target_def ebind_def get_slot_def split: sum.splits option.splits)

lemma ebind_D:
  assumes "ebind m f = Inr r"
  obtains x where "m = Inr x" "f x = Inr r"
  using assms by (cases m) simp_all

lemma as_tensor_D: "as_tensor e t = Inr tt \<Longrightarrow> t = Tensor tt"
  by (cases t) simp_all

lemma frame_set_target:
  assumes "scratch_fresh st" "target_of st = Inr k" "slots st k = Some (Tensor tt)"
  shows "frame st (set_slot st k out) k \<and> slots (set_slot st k out) ''target'' = slots st ''target''"
proof -
  from assms(2) have t: "slots st ''target'' = Some (Val (SStr k))" by (rule target_of_D)
  with assms(3) have "k \<noteq> ''target''" by auto
  moreover have "dom (slots (set_slot st k out)) = dom (slots st)"
    using assms(3) by (auto simp: set_slot_def)
  ultimately show ?thesis
    using assms(1) by (auto simp: frame_def set_slot_def scratch_fresh_def)
qed

text \<open>An operation that ends in the assignment to the target slot.\<close>

lemma simple_frame:
  assumes e: "with_target st (\<lambda>t. ebind (f t) (\<lambda>r.
                 case r of None \<Rightarrow> Inr st | Some out \<Rightarrow> assign_target st out)) = Inr st'"
    and tens: "\<And>t out. f t = Inr (Some out) \<Longrightarrow> \<exists>tt. t = Tensor tt"
    and fr: "scratch_fresh st" and k: "target_of st = Inr k"
  shows "frame st st' k \<and> slots st' ''target'' = slots st ''target''"
proof -
  from e obtain k' t where k': "target_of st = Inr k'" and t: "slots st k' = Some t"
    and b: "ebind (f t) (\<lambda>r. case r of None \<Rightarrow> Inr st | Some out \<Rightarrow> assign_target st out) = Inr st'"
    by (rule with_target_D)
  from k k' have [simp]: "k' = k" by simp
  from b obtain r where r: "f t = Inr r"
    and c: "(case r of None \<Rightarrow> Inr st | Some out \<Rightarrow> assign_target st out) = Inr st'"
    by (rule ebind_D)
  show ?thesis
  proof (cases r)
    case None
    with c have "st' = st" by simp
    with fr show ?thesis by (simp add: frame_def)
  next
    case (Some out)
    with c k have s: "st' = set_slot st k out" by (simp add: assign_target_def)
    from tens [of t out] r Some obtain tt where "t = Tensor tt" by auto
    with t have "slots st k = Some (Tensor tt)" by simp
    from frame_set_target [OF fr k this, of out] s show ?thesis by simp
  qed
qed

lemma unscale_hsp_Val: "unscale_hsp L msg st (Val v) \<noteq> Inr r"
  by (auto simp: unscale_hsp_def ebind_def split: sum.splits)

lemma op_scale_torch_Val: "op_scale_torch L args (Val v) \<noteq> Inr r"
  by (simp add: op_scale_torch_def split: list.splits)

lemma op_unscale_torch_Val: "op_unscale_torch L args st (Val v) \<noteq> Inr r"
  using unscale_hsp_Val [of L _ st v]
  by (cases "unscale_hsp L ''Can only use unscale_torch when HSP is set (output)'' st (Val v)")
     (simp_all add: op_unscale_torch_def)

lemma op_scale_Val: "op_scale L args (Val v) \<noteq> Inr r"
  by (simp add: op_scale_def split: list.splits)

lemma op_unscale_Val: "op_unscale L args st (Val v) \<noteq> Inr r"
  using unscale_hsp_Val [of L _ st v]
  by (cases "unscale_hsp L ''Can only use unscale when HSP is set (output)'' st (Val v)")
     (simp_all add: op_unscale_def)

lemma op_flip_Val: "op_flip L args (Val v) \<noteq> Inr r"
  by (cases "arg0 args") (simp_all add: op_flip_def)

lemma op_rot90_Val: "op_rot90 L args (Val v) \<noteq> Inr r"
  by (cases "arg0 args") (simp_all add: op_rot90_def)

lemma op_roll_channels_Val: "op_roll_channels L args (Val v) \<noteq> Inr r"
  by (cases "arg0 args") (simp_all add: op_roll_channels_def)

lemma op_roll_Val: "op_roll L args (Val v) \<noteq> Inr r"
proof -
  have "ebind (roll_dims d) (\<lambda>dims'. ebind (roll_amount L (Val v) dims' a) (\<lambda>amount'.
          ebind (as_tensor TypeError (Val v)) (f dims' amount'))) \<noteq> Inr r" for d a f
    by (cases "roll_dims d"; simp; case_tac "roll_amount L (Val v) b a"; simp)
  then show ?thesis by (simp add: op_roll_def split: list.splits)
qed

lemma op_ffilter_Val: "op_ffilter L args (Val v) \<noteq> Inr r"
proof -
  have "ebind m (\<lambda>filt'. ebind (as_tensor TypeError (Val v)) (f filt')) \<noteq> Inr r"
    for m :: "error + pyval" and f
    by (cases m) simp_all
  then show ?thesis by (simp add: op_ffilter_def split: list.splits)
qed

lemma op_slice_Val: "op_slice L args (Val v) \<noteq> Inr r"
  by (simp add: op_slice_def split: list.splits)

lemma op_multiply_Val: "op_multiply L args (Val v) \<noteq> Inr r"
  by (cases "arg0 args") (simp_all add: op_multiply_def)

lemma op_antialias_Val: "op_antialias L args (Val v) \<noteq> Inr r"
  by (cases "arg0 args") (simp_all add: op_antialias_def)

lemma op_debug_Val: "op_debug L args (Val v) \<noteq> Inr r"
  by (simp add: op_debug_def)

lemmas op_Val = op_scale_torch_Val op_unscale_torch_Val op_scale_Val op_unscale_Val op_flip_Val
  op_rot90_Val op_roll_channels_Val op_roll_Val op_ffilter_Val op_slice_Val op_multiply_Val
  op_antialias_Val op_debug_Val

lemma simple_case:
  assumes "eval_op L typ args st = with_target st (\<lambda>t. ebind (f t) (\<lambda>r.
             case r of None \<Rightarrow> Inr st | Some out \<Rightarrow> assign_target st out))"
    and "\<And>v r. f (Val v) \<noteq> Inr r" and "typ \<noteq> TARGET_SKIP"
    and "scratch_fresh st" and "eval_op L typ args st = Inr st'" and "target_of st = Inr k"
  shows "frame st st' (if typ = TARGET_SKIP then ''target'' else k)
       \<and> (typ \<noteq> TARGET_SKIP \<longrightarrow> slots st' ''target'' = slots st ''target'')"
proof -
  have "\<exists>tt. t = Tensor tt" if "f t = Inr (Some out)" for t out
    using that assms(2) by (cases t) auto
  from simple_frame [of st f st' k, OF _ this assms(4,6)] assms(1,3,5)
  show ?thesis by simp
qed

lemma scratch_begin_props:
  assumes "scratch_fresh st" and "target_of st = Inr k" and "scratch_begin st t = Inr sb"
  shows "\<exists>tt. t = Tensor tt \<and> fst sb = tempname (IDX st) \<and> fst (snd sb) = Val (SStr k)
       \<and> snd (snd sb) = st\<lparr>IDX := Suc (IDX st),
                             slots := (slots st)(tempname (IDX st) \<mapsto> Tensor tt)\<rparr>
       \<and> scratch_fresh (snd (snd sb)) \<and> tempname (IDX st) \<notin> dom (slots st)"
proof -
  from assms(2) have tg: "slots st ''target'' = Some (Val (SStr k))" by (rule target_of_D)
  from assms(3) tg obtain tt where t: "t = Tensor tt"
    and sb: "sb = (tempname (IDX st), Val (SStr k),
                   set_slot (st\<lparr>IDX := IDX st + 1\<rparr>) (tempname (IDX st)) (Tensor tt))"
    by (cases t) (auto simp: scratch_begin_def Let_def get_slot_def)
  from assms(1) have nin: "tempname (IDX st) \<notin> dom (slots st)"
    by (simp add: scratch_fresh_def)
  have "scratch_fresh (st\<lparr>IDX := Suc (IDX st),
                             slots := (slots st)(tempname (IDX st) \<mapsto> Tensor tt)\<rparr>)"
    using assms(1) by (auto simp: scratch_fresh_def tempname_inj)
  with t sb nin show ?thesis by (simp add: set_slot_def)
qed

lemma blend_finish:
  assumes fr: "scratch_fresh st" and k: "target_of st = Inr k" and t: "slots st k = Some t"
    and sb: "scratch_begin st t = Inr sb"
    and q: "dom (slots st3) = dom (slots (snd (snd sb))) \<and> cond st3 = cond (snd (snd sb))
          \<and> (\<forall>x. x \<noteq> fst sb \<and> x \<noteq> ''target'' \<longrightarrow> slots st3 x = slots (snd (snd sb)) x)
          \<and> IDX (snd (snd sb)) \<le> IDX st3 \<and> scratch_fresh st3"
    and e: "assign_target (del_slot (set_slot st3 ''target'' (fst (snd sb))) (fst sb)) out = Inr st'"
  shows "frame st st' k \<and> slots st' ''target'' = slots st ''target''"
proof -
  from scratch_begin_props [OF fr k sb] obtain tt where tt: "t = Tensor tt"
    and n: "fst sb = tempname (IDX st)" and old: "fst (snd sb) = Val (SStr k)"
    and st2: "snd (snd sb) = st\<lparr>IDX := Suc (IDX st),
                             slots := (slots st)(tempname (IDX st) \<mapsto> Tensor tt)\<rparr>"
    and nin: "tempname (IDX st) \<notin> dom (slots st)"
    by blast
  let ?n = "tempname (IDX st)"
  from k have tg: "slots st ''target'' = Some (Val (SStr k))" by (rule target_of_D)
  from t tt tg have kt: "k \<noteq> ''target''" by auto
  from t nin have kn: "k \<noteq> ?n" by auto
  have "target_of (del_slot (set_slot st3 ''target'' (fst (snd sb))) (fst sb)) = Inr k"
    by (simp add: target_of_def del_slot_def set_slot_def old n)
  with e have st': "st' = set_slot (del_slot (set_slot st3 ''target'' (Val (SStr k))) ?n) k out"
    by (simp add: assign_target_def old n)
  from q st2 n have d3: "dom (slots st3) = insert ?n (dom (slots st))"
    and c3: "cond st3 = cond st"
    and o3: "\<And>x. x \<noteq> ?n \<Longrightarrow> x \<noteq> ''target'' \<Longrightarrow> slots st3 x = slots st x"
    and i3: "Suc (IDX st) \<le> IDX st3" and f3: "scratch_fresh st3"
    by simp_all
  have dom: "dom (slots st') = dom (slots st)"
  proof -
    have "dom (slots st') = insert k (insert ''target'' (dom (slots st3)) - {?n})"
      by (auto simp: st' set_slot_def del_slot_def)
    also have "\<dots> = dom (slots st)"
      using d3 nin t tg by auto
    finally show ?thesis .
  qed
  have others: "slots st' x = slots st x" if "x \<noteq> k" for x
  proof (cases "x = ?n")
    case True
    from nin have "slots st ?n = None" by (simp add: domIff)
    with True that show ?thesis by (simp add: st' set_slot_def del_slot_def)
  next
    case False
    show ?thesis
    proof (cases "x = ''target''")
      case True
      with that False tg show ?thesis by (simp add: st' set_slot_def del_slot_def)
    next
      case nt: False
      with that False o3 [of x] show ?thesis by (simp add: st' set_slot_def del_slot_def)
    qed
  qed
  have fresh: "scratch_fresh st'"
    unfolding scratch_fresh_def
  proof (intro allI impI)
    fix m assume "IDX st' \<le> m"
    then have m: "IDX st3 \<le> m" by (simp add: st' set_slot_def del_slot_def)
    with f3 have "tempname m \<notin> dom (slots st3)" by (simp add: scratch_fresh_def)
    with d3 dom show "tempname m \<notin> dom (slots st')" by auto
  qed
  have "IDX st \<le> IDX st'" using i3 by (simp add: st' set_slot_def del_slot_def)
  moreover have "cond st' = cond st" using c3 by (simp add: st' set_slot_def del_slot_def)
  moreover have "slots st' ''target'' = slots st ''target''" using kt others by simp
  ultimately show ?thesis using dom others fresh by (simp add: frame_def)
qed

lemma eval_frame:
  "scratch_fresh st \<Longrightarrow> eval_op L typ args st = Inr st' \<Longrightarrow> target_of st = Inr k \<Longrightarrow>
     frame st st' (if typ = TARGET_SKIP then ''target'' else k)
     \<and> (typ \<noteq> TARGET_SKIP \<longrightarrow> slots st' ''target'' = slots st ''target'')"
  "scratch_fresh st \<Longrightarrow> eval_subops L w items name st = Inr st'' \<Longrightarrow>
     ''target'' \<in> dom (slots st) \<Longrightarrow> name \<in> dom (slots st) \<Longrightarrow>
     dom (slots st'') = dom (slots st) \<and> cond st'' = cond st
     \<and> (\<forall>x. x \<noteq> name \<and> x \<noteq> ''target'' \<longrightarrow> slots st'' x = slots st x)
     \<and> IDX st \<le> IDX st'' \<and> scratch_fresh st''"
proof (induction L "typ" args st and L w items name st arbitrary: st' k and st''
    rule: eval_op_eval_subops.induct)
  case (1 L args st)
  show ?case
    by (rule simple_case [where f = "op_scale_torch L args", OF _ _ _ "1.prems"])
       (simp_all add: op_Val)
next
  case (2 L args st)
  show ?case
    by (rule simple_case [where f = "op_unscale_torch L args st", OF _ _ _ "2.prems"])
       (simp_all add: op_Val)
next
  case (3 L args st)
  show ?case
    by (rule simple_case [where f = "op_scale L args", OF _ _ _ "3.prems"])
       (simp_all add: op_Val)
next
  case (4 L args st)
  show ?case
    by (rule simple_case [where f = "op_unscale L args st", OF _ _ _ "4.prems"])
       (simp_all add: op_Val)
next
  case (5 L args st)
  show ?case
    by (rule simple_case [where f = "op_flip L args", OF _ _ _ "5.prems"])
       (simp_all add: op_Val)
next
  case (6 L args st)
  show ?case
    by (rule simple_case [where f = "op_rot90 L args", OF _ _ _ "6.prems"])
       (simp_all add: op_Val)
next
  case (7 L args st)
  show ?case
    by (rule simple_case [where f = "op_roll_channels L args", OF _ _ _ "7.prems"])
       (simp_all add: op_Val)
next
  case (8 L args st)
  show ?case
    by (rule simple_case [where f = "op_roll L args", OF _ _ _ "8.prems"])
       (simp_all add: op_Val)
next
  case (9 L args st)
  from "9.prems"(3) have tg: "slots st ''target'' = Some (Val (SStr k))" by (rule target_of_D)
  from "9.prems"(2) obtain k' t where "target_of st = Inr k'" "slots st k' = Some t"
    and r: "(if slots st ''hsp'' = None \<or> slots st ''hsp'' = Some (Val SNone)
       then (if slots st ''target'' = Some (Val (SStr ''hsp''))
             then Inr (set_slot st ''target'' (Val (SStr ''h'')))
             else Inr st)
       else ebind (arg0 args) (\<lambda>a.
              Inr (set_slot st ''target''
                     (Val (SStr (if a = Sc (SBool True) then ''hsp'' else ''h'')))))) = Inr st'"
    unfolding eval_op.simps by (rule with_target_D)
  from r have "st' = st \<or> (\<exists>v. st' = set_slot st ''target'' v)"
    by (auto simp: ebind_def split: if_splits sum.splits)
  then consider "st' = st" | v where "st' = set_slot st ''target'' v" by blast
  then show ?case
  proof cases
    case 1
    with "9.prems"(1) show ?thesis by (simp add: frame_def)
  next
    case 2
    have dm: "dom (slots (set_slot st ''target'' v)) = dom (slots st)"
      using tg by (auto simp: set_slot_def)
    then have "scratch_fresh (set_slot st ''target'' v)"
      using "9.prems"(1) by (simp add: scratch_fresh_def set_slot_def)
    with dm 2 show ?thesis by (simp add: frame_def set_slot_def)
  qed
next
  case (10 L args st)
  show ?case
    by (rule simple_case [where f = "op_ffilter L args", OF _ _ _ "10.prems"])
       (simp_all add: op_Val)
next
  case (11 L args st)
  show ?case
    by (rule simple_case [where f = "op_slice L args", OF _ _ _ "11.prems"])
       (simp_all add: op_Val)
next
  case (12 L args st)
  show ?case
    by (rule simple_case [where f = "op_multiply L args", OF _ _ _ "12.prems"])
       (simp_all add: op_Val)
next
  case (13 L args st)
  from "13.prems"(3) have tg: "slots st ''target'' = Some (Val (SStr k))" by (rule target_of_D)
  from "13.prems"(2) obtain k' t where k': "target_of st = Inr k'" and t: "slots st k' = Some t"
    and r: "(case args of
         [blend, mode, subops] \<Rightarrow>
           ebind (wrap_subops subops) (\<lambda>ws.
           ebind (scratch_begin st t) (\<lambda>sb.
           ebind (py_items (snd ws)) (\<lambda>items.
           ebind (eval_subops L (fst ws) items (fst sb) (snd (snd sb))) (\<lambda>st'.
           ebind (blending_mode L mode) (\<lambda>f.
           ebind (as_tensor TypeError t) (\<lambda>tt.
           ebind (get_slot st' (fst sb)) (\<lambda>tmp.
           ebind (as_tensor TypeError tmp) (\<lambda>tmp'.
           ebind (f tt tmp' blend) (\<lambda>out.
             assign_target (del_slot (set_slot st' ''target'' (fst (snd sb))) (fst sb))
               (Tensor out))))))))))
       | _ \<Rightarrow> Inl (ValueError ''unpack'')) = Inr st'"
    unfolding eval_op.simps by (rule with_target_D)
  from k' "13.prems"(3) have [simp]: "k' = k" by simp
  from r obtain blend mode subops where args: "args = [blend, mode, subops]"
    by (auto split: list.splits)
  from r [unfolded args list.case] obtain ws sb items st3 out where
    ws: "wrap_subops subops = Inr ws" and sb: "scratch_begin st t = Inr sb"
    and items: "py_items (snd ws) = Inr items"
    and sub: "eval_subops L (fst ws) items (fst sb) (snd (snd sb)) = Inr st3"
    and fin: "assign_target (del_slot (set_slot st3 ''target'' (fst (snd sb))) (fst sb))
               (Tensor out) = Inr st'"
    by (elim ebind_D) blast
  from scratch_begin_props [OF "13.prems"(1,3) sb [simplified]] t tg
  have f2: "scratch_fresh (snd (snd sb))" and d1: "''target'' \<in> dom (slots (snd (snd sb)))"
    and d2: "fst sb \<in> dom (slots (snd (snd sb)))"
    by auto
  have gs: "get_slot st k = Inr t" using t by (simp add: get_slot_def)
  from "13.IH" [OF "13.prems"(3) gs args refl refl refl ws sb items f2 sub d1 d2]
  have q: "dom (slots st3) = dom (slots (snd (snd sb))) \<and> cond st3 = cond (snd (snd sb))
          \<and> (\<forall>x. x \<noteq> fst sb \<and> x \<noteq> ''target'' \<longrightarrow> slots st3 x = slots (snd (snd sb)) x)
          \<and> IDX (snd (snd sb)) \<le> IDX st3 \<and> scratch_fresh st3" .
  from blend_finish [OF "13.prems"(1,3) t [simplified] sb q fin] show ?case by simp
next
  case (14 L args st)
  from "14.prems"(3) have tg: "slots st ''target'' = Some (Val (SStr k))" by (rule target_of_D)
  from "14.prems"(2) obtain k' t where k': "target_of st = Inr k'" and t: "slots st k' = Some t"
    and r: "(case args of
         [scale_mode, antialias_size, maskdef, subops] \<Rightarrow>
           ebind (example_mask L scale_mode antialias_size maskdef t) (\<lambda>mask.
           ebind (wrap_subops subops) (\<lambda>ws.
           ebind (scratch_begin st t) (\<lambda>sb.
           ebind (py_items (snd ws)) (\<lambda>items.
           ebind (eval_subops L (fst ws) items (fst sb) (snd (snd sb))) (\<lambda>st'.
           ebind (get_slot st' (fst sb)) (\<lambda>tmp.
           ebind (as_tensor TypeError tmp) (\<lambda>tmp'.
           ebind (as_tensor TypeError t) (\<lambda>tt.
           ebind (mask_mix L tmp' tt mask) (\<lambda>out.
             assign_target (del_slot (set_slot st' ''target'' (fst (snd sb))) (fst sb))
               (Tensor out))))))))))
       | _ \<Rightarrow> Inl (ValueError ''unpack'')) = Inr st'"
    unfolding eval_op.simps by (rule with_target_D)
  from k' "14.prems"(3) have [simp]: "k' = k" by simp
  from r obtain scale_mode antialias_size maskdef subops
    where args: "args = [scale_mode, antialias_size, maskdef, subops]"
    by (auto split: list.splits)
  from r [unfolded args list.case] obtain mask ws sb items st3 out where
    mask: "example_mask L scale_mode antialias_size maskdef t = Inr mask"
    and ws: "wrap_subops subops = Inr ws" and sb: "scratch_begin st t = Inr sb"
    and items: "py_items (snd ws) = Inr items"
    and sub: "eval_subops L (fst ws) items (fst sb) (snd (snd sb)) = Inr st3"
    and fin: "assign_target (del_slot (set_slot st3 ''target'' (fst (snd sb))) (fst sb))
               (Tensor out) = Inr st'"
    by (elim ebind_D) blast
  from scratch_begin_props [OF "14.prems"(1,3) sb [simplified]] t tg
  have f2: "scratch_fresh (snd (snd sb))" and d1: "''target'' \<in> dom (slots (snd (snd sb)))"
    and d2: "fst sb \<in> dom (slots (snd (snd sb)))"
    by auto
  have gs: "get_slot st k = Inr t" using t by (simp add: get_slot_def)
  from "14.IH" [OF "14.prems"(3) gs args refl refl refl refl mask ws sb items f2 sub d1 d2]
  have q: "dom (slots st3) = dom (slots (snd (snd sb))) \<and> cond st3 = cond (snd (snd sb))
          \<and> (\<forall>x. x \<noteq> fst sb \<and> x \<noteq> ''target'' \<longrightarrow> slots st3 x = slots (snd (snd sb)) x)
          \<and> IDX (snd (snd sb)) \<le> IDX st3 \<and> scratch_fresh st3" .
  from blend_finish [OF "14.prems"(1,3) t [simplified] sb q fin] show ?case by simp
next
  case (15 L args st)
  show ?case
    by (rule simple_case [where f = "op_antialias L args", OF _ _ _ "15.prems"])
       (simp_all add: op_Val)
next
  case (16 L args st)
  from "16.prems"(2) obtain k' t where k': "target_of st = Inr k'" and t: "slots st k' = Some t"
    and r: "ebind (as_tensor TypeError t) (\<lambda>tt.
       ebind (get_slot st ''sigma'') (\<lambda>sigma.
       ebind (get_slot st ''sigma_next'') (\<lambda>sigma_next.
       ebind (py_sub sigma sigma_next) (\<lambda>step_scale.
       ebind (arg0 args) (\<lambda>a.
       ebind (add_noise L tt (fst (randn_like L (rng st) tt)) step_scale a) (\<lambda>out.
         assign_target (st\<lparr>rng := snd (randn_like L (rng st) tt)\<rparr>) (Tensor out))))))) = Inr st'"
    unfolding eval_op.simps by (rule with_target_D)
  from k' "16.prems"(3) have [simp]: "k' = k" by simp
  from r obtain tt out where tt: "as_tensor TypeError t = Inr tt"
    and fin: "assign_target (st\<lparr>rng := snd (randn_like L (rng st) tt)\<rparr>) (Tensor out) = Inr st'"
    by (elim ebind_D) blast
  let ?st = "st\<lparr>rng := snd (randn_like L (rng st) tt)\<rparr>"
  from tt have "t = Tensor tt" by (rule as_tensor_D)
  with t have kt: "slots ?st k = Some (Tensor tt)" by simp
  have fr: "scratch_fresh ?st" using "16.prems"(1) by (simp add: scratch_fresh_def)
  have tk: "target_of ?st = Inr k" using "16.prems"(3) by (simp add: target_of_def)
  from fin tk have "st' = set_slot ?st k (Tensor out)" by (simp add: assign_target_def)
  with frame_set_target [OF fr tk kt, of "Tensor out"] show ?case
    by (simp add: frame_def)
next
  case (17 L args st)
  show ?case
    by (rule simple_case [where f = "op_debug L args", OF _ _ _ "17.prems"])
       (simp_all add: op_Val)
next
  case (18 L wrapped name st)
  then show ?case by simp
next
  case (19 L wrapped e items name st)
  then show ?case by simp
next
  case (20 L wrapped kvs items name st)
  then show ?case by (auto simp: ebind_def split: sum.splits)
next
  case (21 L wrapped items name st)
  then show ?case by simp
next
  case (22 L wrapped x xs items name st)
  let ?st1 = "set_slot st ''target'' (Val (SStr name))"
  from "22.prems"(2) obtain t st2 where t: "enum_of OpType_names x = Inr t"
    and e1: "eval_op L t xs ?st1 = Inr st2"
    and e2: "eval_subops L wrapped items name st2 = Inr st''"
    unfolding eval_subops.simps by (elim ebind_D) blast
  have dom1: "dom (slots ?st1) = dom (slots st)"
    using "22.prems"(3) by (auto simp: set_slot_def)
  have fr1: "scratch_fresh ?st1"
    using "22.prems"(1) dom1 by (simp add: scratch_fresh_def set_slot_def)
  have tk: "target_of ?st1 = Inr name" by (simp add: target_of_def set_slot_def)
  from "22.IH"(1) [OF t fr1 e1 tk]
  have f: "frame ?st1 st2 (if t = TARGET_SKIP then ''target'' else name)" by simp
  then have d2: "dom (slots st2) = dom (slots st)" and c2: "cond st2 = cond st"
    and o2: "\<And>x. x \<noteq> name \<Longrightarrow> x \<noteq> ''target'' \<Longrightarrow> slots st2 x = slots st x"
    and i2: "IDX st \<le> IDX st2" and fr2: "scratch_fresh st2"
    using dom1 by (auto simp: frame_def set_slot_def split: if_splits)
  from "22.prems"(3,4) d2 have m: "''target'' \<in> dom (slots st2)" "name \<in> dom (slots st2)"
    by simp_all
  from "22.IH"(2) [OF t e1 fr2 e2 m] d2 c2 o2 i2 show ?case by auto
next
  case (23 L wrapped v items name st)
  then show ?case by simp
qed

lemma eval_op_target:
  assumes "eval_op L typ args st = Inr st'"
  shows "\<exists>k. target_of st = Inr k"
  using assms by (cases "typ") (auto elim!: with_target_D)

subsection \<open>Rules and patches keep the scratch names free\<close>

lemma Operations_eval_fresh:
  "scratch_fresh st \<Longrightarrow> Operations_eval L os st = Inr st' \<Longrightarrow> scratch_fresh st'"
proof (induction os arbitrary: st)
  case Nil
  then show ?case by simp
next
  case (Cons o1 os)
  obtain t args where o1: "o1 = Operation t args" by (cases o1)
  from Cons.prems(2) obtain st1 where e: "eval_op L t args st = Inr st1"
    and r: "Operations_eval L os st1 = Inr st'"
    by (auto simp: o1 split: sum.splits)
  from e obtain k where k: "target_of st = Inr k" using eval_op_target by blast
  from eval_frame(1) [OF Cons.prems(1) e k] have "scratch_fresh st1" by (simp add: frame_def)
  from Cons.IH [OF this r] show ?case .
qed

lemma Rule_eval_fresh:
  "scratch_fresh st \<Longrightarrow> Rule_eval L r st = Inr st' \<Longrightarrow> scratch_fresh st'"
  "scratch_fresh st \<Longrightarrow> Rules_eval L rs st = Inr st' \<Longrightarrow> scratch_fresh st'"
proof (induction L r st and L rs st arbitrary: st' and st' rule: Rule_eval_Rules_eval.induct)
  case (1 L c os m n st)
  from "1.prems"(2) obtain b where b: "ConditionGroup_test c st = Inr b"
    by (auto split: sum.splits)
  show ?case
  proof (cases b)
    case False
    with b "1.prems" "1.IH"(1) show ?thesis by simp
  next
    case True
    let ?st = "set_slot st ''target'' (Val (SStr ''h''))"
    from True b "1.prems"(2) obtain st1 where o: "Operations_eval L os ?st = Inr st1"
      and r: "Rules_eval L m st1 = Inr st'"
      by (auto split: sum.splits)
    have "scratch_fresh ?st" using "1.prems"(1) by (simp add: scratch_fresh_def set_slot_def)
    then have "scratch_fresh st1" using o by (rule Operations_eval_fresh)
    from "1.IH"(2) [OF b _ o this r] True show ?thesis by simp
  qed
next
  case (2 L st)
  then show ?case by simp
next
  case (3 L r rs st)
  from "3.prems"(2) obtain st1 where a: "Rule_eval L r st = Inr st1"
    and b: "Rules_eval L rs st1 = Inr st'"
    by (auto split: sum.splits)
  from "3.IH"(2) [OF a "3.IH"(1) [OF "3.prems"(1) a] b] show ?case .
qed

lemma set_state_step_fresh:
  "set_state_step sigmas_opt st0 sigma = Inr st \<Longrightarrow> scratch_fresh st0 \<Longrightarrow> scratch_fresh st"
  by (auto simp: set_state_step_def ebind_def scratch_fresh_def tempname_def
      split: option.splits sum.splits)

lemma initial_fresh:
  "scratch_fresh \<lparr>cond = c, slots = [''h'' \<mapsto> a, ''hsp'' \<mapsto> b, ''target'' \<mapsto> d],
                  IDX = i, rng = g\<rparr>"
  by (simp add: scratch_fresh_def tempname_def)

lemma make_state_fresh:
  assumes "make_state L percent_to_sigma sigmas_opt idx g typ to h hsp = Inr (Some st)"
  shows "scratch_fresh st"
  using assms
  by (auto simp: make_state_def ebind_def split: sum.splits option.splits
      intro: set_state_step_fresh [OF _ initial_fresh])

text \<open>
  Claim C6. An operation that is evaluated in a state where the scratch names are free,
  and that returns, leaves the set of keys as it was; the only binding that can have
  changed is that of the target slot, or for \<^verbatim>\<open>TARGET_SKIP\<close> that of \<^verbatim>\<open>"target"\<close>, and
  for every other operation \<^verbatim>\<open>"target"\<close> is bound as before. The scratch slot of a blend
  has the name made from \<^verbatim>\<open>Operation.IDX\<close>, which is no key of the state; the nested
  operations run with a larger counter in a state where the scratch names are free
  again, different counters give different names, and after the operation the scratch
  names are free as before, so no scratch slot is left.
\<close>

theorem Operation_eval_frame:
  assumes "scratch_fresh st" and "Operation_eval L (Operation typ args) st = Inr st'"
  shows "\<exists>k. target_of st = Inr k
       \<and> dom (slots st') = dom (slots st) \<and> cond st' = cond st
       \<and> (\<forall>x. x \<noteq> (if typ = TARGET_SKIP then ''target'' else k) \<longrightarrow> slots st' x = slots st x)
       \<and> (typ \<noteq> TARGET_SKIP \<longrightarrow> slots st' ''target'' = slots st ''target'')
       \<and> scratch_fresh st' \<and> IDX st \<le> IDX st'
       \<and> (\<forall>t sb. scratch_begin st t = Inr sb \<longrightarrow>
             fst sb = tempname (IDX st) \<and> fst sb \<notin> dom (slots st)
             \<and> IDX (snd (snd sb)) = Suc (IDX st) \<and> scratch_fresh (snd (snd sb)))
       \<and> (\<forall>m n. tempname m = tempname n \<longrightarrow> m = n)"
proof -
  from assms(2) have e: "eval_op L typ args st = Inr st'" by simp
  then obtain k where k: "target_of st = Inr k" using eval_op_target by blast
  from eval_frame(1) [OF assms(1) e k]
  have f: "frame st st' (if typ = TARGET_SKIP then ''target'' else k)"
    and tg: "typ \<noteq> TARGET_SKIP \<longrightarrow> slots st' ''target'' = slots st ''target''"
    by simp_all
  have sb: "fst sb = tempname (IDX st) \<and> fst sb \<notin> dom (slots st)
             \<and> IDX (snd (snd sb)) = Suc (IDX st) \<and> scratch_fresh (snd (snd sb))"
    if "scratch_begin st t = Inr sb" for t sb
    using scratch_begin_props [OF assms(1) k that] by auto
  have inj: "\<forall>m n. tempname m = tempname n \<longrightarrow> m = n" by (simp add: tempname_inj)
  from f have "dom (slots st') = dom (slots st)" "cond st' = cond st"
    "\<forall>x. x \<noteq> (if typ = TARGET_SKIP then ''target'' else k) \<longrightarrow> slots st' x = slots st x"
    "scratch_fresh st'" "IDX st \<le> IDX st'"
    by (simp_all add: frame_def)
  with k tg sb inj show ?thesis by blast
qed

lemma scratch_fresh_output_state: "scratch_fresh (output_state h hsp)"
  by (simp add: scratch_fresh_def output_state_def tempname_def)

lemma str_of_nat_0_1: "str_of_nat 0 = ''0''" "str_of_nat (Suc 0) = ''1''"
  by (simp_all add: str_of_nat_small digit_char_def)

lemma nested_blend_eval:
  "Operation_eval example_lib nested_blend (output_state [1, 4, 8, 8] (Tensor [1, 4, 16, 16]))
     = Inr ((output_state [1, 4, 8, 8] (Tensor [1, 4, 16, 16]))\<lparr>IDX := 2\<rparr>)"
  by (simp add: nested_blend_def output_state_def with_target_def target_of_def get_slot_def
      wrap_subops_def scratch_begin_def py_items_def seq_index_def tempname_def
      str_of_nat_0_1 OpType_names_def upper_strip_def to_upper_def is_space_def
      example_lib_def assign_target_def del_slot_def set_slot_def op_multiply_def arg0_def
      Let_def fun_eq_iff)

theorem Operation_eval_frame_witness:
  "dom (slots ((output_state [1, 4, 8, 8] (Tensor [1, 4, 16, 16]))\<lparr>IDX := 2\<rparr>))
     = dom (slots (output_state [1, 4, 8, 8] (Tensor [1, 4, 16, 16])))
   \<and> scratch_fresh ((output_state [1, 4, 8, 8] (Tensor [1, 4, 16, 16]))\<lparr>IDX := 2\<rparr>)"
  using Operation_eval_frame [OF scratch_fresh_output_state
      nested_blend_eval [unfolded nested_blend_def]]
  by blast

section \<open>The rules visited by an evaluation (C10)\<close>















end
